theory Spec2Isabelle
  imports Complex_Main
begin

section \<open>The shared postal-code validator\<close>

text \<open>
  Both services (\<^verbatim>\<open>service-a/main.go\<close> and the \<^verbatim>\<open>main.go\<close> of service-b) contain the same
  function, character for character:
  \<^verbatim>\<open>
  func validateCEP(cep string) bool {
      if len(cep) != 8 { return false }
      matched, _ := regexp.MatchString(`^\d{8}$`, cep)
      return matched
  }
  \<close>
  A Go string is a sequence of bytes and \<^verbatim>\<open>len\<close> counts bytes, so the model uses \<open>string\<close>
  (a list of 8-bit characters) and \<open>length\<close>. The regular expression is modelled by its
  syntax tree and a matcher for the operators the pattern uses: \<^verbatim>\<open>^\<close> and \<^verbatim>\<open>$\<close> (without the
  multi-line flag: beginning and end of the text), the class \<^verbatim>\<open>\d\<close> (in Go's RE2 syntax the
  ASCII range 0x30..0x39 only), bounded repetition and concatenation.
\<close>

datatype regexp = BeginText | EndText | Digit | Repeat regexp nat | Cat regexp regexp

text \<open>
  A cursor is a position in the text: whether it is the beginning of the text, and the
  text that remains. The matcher returns every cursor a match of the expression that starts
  at the given cursor can end at. The only class of the pattern matches single-byte
  characters, so stepping by bytes and stepping by UTF-8 sequences see the same matches.
\<close>

type_synonym cursor = "bool \<times> string"

definition is_digit :: "char \<Rightarrow> bool" where
  "is_digit c = (48 \<le> (of_char c :: nat) \<and> (of_char c :: nat) \<le> 57)"

primrec times :: "nat \<Rightarrow> ('a \<Rightarrow> 'a list) \<Rightarrow> 'a \<Rightarrow> 'a list" where
  "times 0 f x = [x]"
| "times (Suc n) f x = concat (map (times n f) (f x))"

primrec run :: "regexp \<Rightarrow> cursor \<Rightarrow> cursor list" where
  "run BeginText = (\<lambda>(b, s). if b then [(b, s)] else [])"
| "run EndText = (\<lambda>(b, s). if s = [] then [(b, s)] else [])"
| "run Digit = (\<lambda>(b, s). case s of [] \<Rightarrow> [] | c # cs \<Rightarrow> if is_digit c then [(False, cs)] else [])"
| "run (Repeat r n) = times n (run r)"
| "run (Cat r1 r2) = (\<lambda>k. concat (map (run r2) (run r1 k)))"

fun tails :: "string \<Rightarrow> string list" where
  "tails [] = []"
| "tails (c # cs) = cs # tails cs"

text \<open>
  \<^verbatim>\<open>regexp.MatchString\<close> reports whether the text contains any match: a match may start at
  every position of the text. Its error result is non-nil only for a pattern that does not
  compile; the pattern here is a constant that compiles, and the source drops the error.
\<close>

definition MatchString :: "regexp \<Rightarrow> string \<Rightarrow> bool" where
  "MatchString re s = list_ex (\<lambda>k. run re k \<noteq> []) ((True, s) # map (Pair False) (tails s))"

definition cep_pattern :: regexp where
  "cep_pattern = Cat BeginText (Cat (Repeat Digit 8) EndText)"

definition validateCEP :: "string \<Rightarrow> bool" where
  "validateCEP cep = (if length cep \<noteq> 8 then False else MatchString cep_pattern cep)"

section \<open>JSON documents and Go's decoder\<close>

text \<open>
  The handlers read and write JSON through \<^verbatim>\<open>encoding/json\<close> (and gin's binding on top of
  it). A message body is modelled by the JSON value it starts with, or \<open>None\<close> when it does
  not start with a well-formed JSON value (an empty body, a web page, truncated text): the case
  in which \<^verbatim>\<open>Decoder.Decode\<close> returns a syntax error. The decoder reads one value from the
  stream and does not look at what follows it, so a body that starts with a JSON value is
  that value for the handlers, whether or not the whole body is valid JSON. A number
  literal is represented by its value; object members are kept in document order,
  duplicates included.
\<close>

datatype json = JNull | JBool bool | JNumber rat | JString string
  | JArray "json list" | JObject "(string \<times> json) list"

type_synonym body = "json option"

text \<open>The errors the handlers can meet. The handlers only test them against nil.\<close>

datatype go_error = SyntaxError | UnmarshalTypeError | ValidationError | TransportError
  | CEPNotFound | WeatherStatus int

text \<open>
  Go's \<^verbatim>\<open>float64\<close> is not fixed to a representation here: the arithmetic the code uses is a
  parameter. \<open>f64_const\<close> is the conversion of a constant of the source to \<^verbatim>\<open>float64\<close>,
  \<open>f64_parse\<close> the conversion of a JSON number (\<^verbatim>\<open>strconv.ParseFloat\<close>, which fails on a
  number out of range), \<open>f64_mul\<close> and \<open>f64_add\<close> the operators \<^verbatim>\<open>*\<close> and \<^verbatim>\<open>+\<close>.
\<close>

record 'f float64_ops =
  f64_const :: "rat \<Rightarrow> 'f"
  f64_parse :: "rat \<Rightarrow> 'f option"
  f64_mul :: "'f \<Rightarrow> 'f \<Rightarrow> 'f"
  f64_add :: "'f \<Rightarrow> 'f \<Rightarrow> 'f"

text \<open>The structs of the two services, with the field names of the source.\<close>

record CEPRequest =
  CEP :: string

record ErrorResponse =
  Message :: string

record ViaCEPResponse =
  CEP :: string
  Logradouro :: string
  Bairro :: string
  Localidade :: string
  UF :: string
  Erro :: bool

record 'f Current =
  TempC :: 'f

record 'f WeatherAPIResponse =
  Current :: "'f Current"

record 'f WeatherResponse =
  City :: string
  TempC :: 'f
  TempF :: 'f
  TempK :: 'f

text \<open>
  The decoder matches an object key to a struct field by the field's JSON name, exactly or
  ignoring case. None of the names used here contains a letter with a non-ASCII case
  variant, so ignoring case is ignoring ASCII case.
\<close>

definition lower :: "char \<Rightarrow> char" where
  "lower c = (let n = (of_char c :: nat) in if 65 \<le> n \<and> n \<le> 90 then char_of (n + 32) else c)"

definition equalFold :: "string \<Rightarrow> string \<Rightarrow> bool" where
  "equalFold s t = (map lower s = map lower t)"

text \<open>
  Decoding a JSON value into a field that already holds \<open>old\<close>: \<^verbatim>\<open>null\<close> leaves the field as
  it is, a value of the field's kind is stored, and anything else is an
  \<^verbatim>\<open>UnmarshalTypeError\<close>, which \<^verbatim>\<open>Decode\<close> returns in the end.
\<close>

definition into_string :: "json \<Rightarrow> string \<Rightarrow> go_error + string" where
  "into_string v old =
     (case v of JString s \<Rightarrow> Inr s | JNull \<Rightarrow> Inr old | _ \<Rightarrow> Inl UnmarshalTypeError)"

definition into_bool :: "json \<Rightarrow> bool \<Rightarrow> go_error + bool" where
  "into_bool v old =
     (case v of JBool b \<Rightarrow> Inr b | JNull \<Rightarrow> Inr old | _ \<Rightarrow> Inl UnmarshalTypeError)"

definition into_float64 :: "'f float64_ops \<Rightarrow> json \<Rightarrow> 'f \<Rightarrow> go_error + 'f" where
  "into_float64 ops v old =
     (case v of
        JNumber q \<Rightarrow> (case f64_parse ops q of None \<Rightarrow> Inl UnmarshalTypeError | Some x \<Rightarrow> Inr x)
      | JNull \<Rightarrow> Inr old
      | _ \<Rightarrow> Inl UnmarshalTypeError)"

text \<open>
  Decoding into a struct: the members of the object are visited in document order, each
  stored into the field its key names (a later member overwrites an earlier one, a key
  that names no field is skipped).
\<close>

fun object_fields ::
  "(string \<Rightarrow> json \<Rightarrow> 'r \<Rightarrow> go_error + 'r) \<Rightarrow> (string \<times> json) list \<Rightarrow> 'r \<Rightarrow> go_error + 'r" where
  "object_fields field [] r = Inr r"
| "object_fields field ((k, v) # ms) r =
     (case field k v r of Inl e \<Rightarrow> Inl e | Inr r' \<Rightarrow> object_fields field ms r')"

definition into_struct ::
  "(string \<Rightarrow> json \<Rightarrow> 'r \<Rightarrow> go_error + 'r) \<Rightarrow> json \<Rightarrow> 'r \<Rightarrow> go_error + 'r" where
  "into_struct field v old =
     (case v of JObject ms \<Rightarrow> object_fields field ms old | JNull \<Rightarrow> Inr old
      | _ \<Rightarrow> Inl UnmarshalTypeError)"

definition CEPRequest_field :: "string \<Rightarrow> json \<Rightarrow> CEPRequest \<Rightarrow> go_error + CEPRequest" where
  "CEPRequest_field k v r =
     (if equalFold k ''cep''
      then map_sum id (\<lambda>s. r\<lparr>CEPRequest.CEP := s\<rparr>) (into_string v (CEPRequest.CEP r))
      else Inr r)"

definition ViaCEPResponse_field ::
  "string \<Rightarrow> json \<Rightarrow> ViaCEPResponse \<Rightarrow> go_error + ViaCEPResponse" where
  "ViaCEPResponse_field k v r =
     (if equalFold k ''cep''
      then map_sum id (\<lambda>s. r\<lparr>ViaCEPResponse.CEP := s\<rparr>) (into_string v (ViaCEPResponse.CEP r))
      else if equalFold k ''logradouro''
      then map_sum id (\<lambda>s. r\<lparr>Logradouro := s\<rparr>) (into_string v (Logradouro r))
      else if equalFold k ''bairro''
      then map_sum id (\<lambda>s. r\<lparr>Bairro := s\<rparr>) (into_string v (Bairro r))
      else if equalFold k ''localidade''
      then map_sum id (\<lambda>s. r\<lparr>Localidade := s\<rparr>) (into_string v (Localidade r))
      else if equalFold k ''uf''
      then map_sum id (\<lambda>s. r\<lparr>UF := s\<rparr>) (into_string v (UF r))
      else if equalFold k ''erro''
      then map_sum id (\<lambda>b. r\<lparr>Erro := b\<rparr>) (into_bool v (Erro r))
      else Inr r)"

definition Current_field ::
  "'f float64_ops \<Rightarrow> string \<Rightarrow> json \<Rightarrow> 'f Current \<Rightarrow> go_error + 'f Current" where
  "Current_field ops k v r =
     (if equalFold k ''temp_c''
      then map_sum id (\<lambda>x. r\<lparr>Current.TempC := x\<rparr>) (into_float64 ops v (Current.TempC r))
      else Inr r)"

definition WeatherAPIResponse_field ::
  "'f float64_ops \<Rightarrow> string \<Rightarrow> json \<Rightarrow> 'f WeatherAPIResponse \<Rightarrow> go_error + 'f WeatherAPIResponse" where
  "WeatherAPIResponse_field ops k v r =
     (if equalFold k ''current''
      then map_sum id (\<lambda>c. r\<lparr>Current := c\<rparr>) (into_struct (Current_field ops) v (Current r))
      else Inr r)"

text \<open>
  \<^verbatim>\<open>json.NewDecoder(body).Decode(&x)\<close> for a struct \<open>x\<close> that holds its zero value.
\<close>

definition Decode :: "(json \<Rightarrow> 'r \<Rightarrow> go_error + 'r) \<Rightarrow> 'r \<Rightarrow> body \<Rightarrow> go_error + 'r" where
  "Decode into zero b = (case b of None \<Rightarrow> Inl SyntaxError | Some v \<Rightarrow> into v zero)"

definition zero_CEPRequest :: CEPRequest where
  "zero_CEPRequest = \<lparr>CEPRequest.CEP = ''''\<rparr>"

definition zero_ViaCEPResponse :: ViaCEPResponse where
  "zero_ViaCEPResponse = \<lparr>ViaCEPResponse.CEP = '''', Logradouro = '''', Bairro = '''',
     Localidade = '''', UF = '''', Erro = False\<rparr>"

definition zero_WeatherAPIResponse :: "'f float64_ops \<Rightarrow> 'f WeatherAPIResponse" where
  "zero_WeatherAPIResponse ops = \<lparr>Current = \<lparr>Current.TempC = f64_const ops 0\<rparr>\<rparr>"

text \<open>
  Decoding into an \<^verbatim>\<open>interface{}\<close>, as the edge service does with the body it relays:
  \<^verbatim>\<open>nil\<close>, \<^verbatim>\<open>bool\<close>, \<^verbatim>\<open>float64\<close>, \<^verbatim>\<open>string\<close>, \<^verbatim>\<open>[]interface{}\<close> or
  \<^verbatim>\<open>map[string]interface{}\<close>. A map holds one value for a key: a later member of the object
  replaces an earlier one with the same key.
\<close>

datatype 'f go_value = VNil | VBool bool | VFloat64 'f | VString string
  | VSlice "'f go_value list" | VMap "(string \<times> 'f go_value) list"

fun assign :: "'k \<Rightarrow> 'v \<Rightarrow> ('k \<times> 'v) list \<Rightarrow> ('k \<times> 'v) list" where
  "assign k v [] = [(k, v)]"
| "assign k v ((k', v') # m) = (if k = k' then (k, v) # m else (k', v') # assign k v m)"

fun valueInterface :: "'f float64_ops \<Rightarrow> json \<Rightarrow> go_error + 'f go_value"
  and arrayInterface :: "'f float64_ops \<Rightarrow> json list \<Rightarrow> go_error + 'f go_value list"
  and objectInterface ::
    "'f float64_ops \<Rightarrow> (string \<times> json) list \<Rightarrow> (string \<times> 'f go_value) list
      \<Rightarrow> go_error + (string \<times> 'f go_value) list" where
  "valueInterface ops JNull = Inr VNil"
| "valueInterface ops (JBool b) = Inr (VBool b)"
| "valueInterface ops (JNumber q) =
     (case f64_parse ops q of None \<Rightarrow> Inl UnmarshalTypeError | Some x \<Rightarrow> Inr (VFloat64 x))"
| "valueInterface ops (JString s) = Inr (VString s)"
| "valueInterface ops (JArray vs) =
     (case arrayInterface ops vs of Inl e \<Rightarrow> Inl e | Inr xs \<Rightarrow> Inr (VSlice xs))"
| "valueInterface ops (JObject ms) =
     (case objectInterface ops ms [] of Inl e \<Rightarrow> Inl e | Inr m \<Rightarrow> Inr (VMap m))"
| "arrayInterface ops [] = Inr []"
| "arrayInterface ops (v # vs) =
     (case valueInterface ops v of Inl e \<Rightarrow> Inl e
      | Inr x \<Rightarrow> (case arrayInterface ops vs of Inl e \<Rightarrow> Inl e | Inr xs \<Rightarrow> Inr (x # xs)))"
| "objectInterface ops [] m = Inr m"
| "objectInterface ops ((k, v) # ms) m =
     (case valueInterface ops v of Inl e \<Rightarrow> Inl e
      | Inr x \<Rightarrow> objectInterface ops ms (assign k x m))"

definition DecodeInterface :: "'f float64_ops \<Rightarrow> body \<Rightarrow> go_error + 'f go_value" where
  "DecodeInterface ops b = (case b of None \<Rightarrow> Inl SyntaxError | Some v \<Rightarrow> valueInterface ops v)"

text \<open>
  gin's \<^verbatim>\<open>ShouldBindJSON\<close> for \<^verbatim>\<open>CEPRequest\<close>: decode the body, then check the field's tag
  \<^verbatim>\<open>binding:"required"\<close>, which rejects the zero value of the field (the empty string).
\<close>

definition ShouldBindJSON :: "body \<Rightarrow> go_error + CEPRequest" where
  "ShouldBindJSON b =
     (case Decode (into_struct CEPRequest_field) zero_CEPRequest b of
        Inl e \<Rightarrow> Inl e
      | Inr req \<Rightarrow> if CEPRequest.CEP req = '''' then Inl ValidationError else Inr req)"

section \<open>The world outside a handler\<close>

text \<open>
  A handler reads environment variables and sends HTTP requests. Both are inputs of the
  model: \<open>Getenv\<close> is \<^verbatim>\<open>os.Getenv\<close> (the empty string for a variable that is not set), and
  \<open>Do\<close> is the outcome of building a request and sending it with the HTTP client
  (\<^verbatim>\<open>http.NewRequestWithContext\<close> followed by \<^verbatim>\<open>client.Do\<close>): an error when the request
  cannot be built or sent, when the connection fails or when the 30 second timeout
  expires, and the response otherwise. The source handles the errors of the two calls in
  the same way. Every function that may send a request returns, beside its result, the list
  of the requests it handed to \<open>Do\<close>, in order.

  Spans, their attributes and the errors recorded on them are not part of the model, nor
  are the trace headers the instrumented transport adds to a request.
\<close>

record http_request =
  Method :: string
  URL :: string
  Header :: "(string \<times> string) list"
  ReqBody :: body

record http_response =
  StatusCode :: int
  Body :: body

record env =
  Getenv :: "string \<Rightarrow> string"
  Do :: "http_request \<Rightarrow> go_error + http_response"

text \<open>
  What a handler passes to \<^verbatim>\<open>c.JSON(code, obj)\<close>: the status code and the object that gin
  renders as the JSON body.
\<close>

datatype 'f payload = PError ErrorResponse | PWeather "'f WeatherResponse" | PValue "'f go_value"

type_synonym 'f reply = "(int \<times> 'f payload) \<times> http_request list"

section \<open>The orchestrator (service-b)\<close>

text \<open>
  \<^verbatim>\<open>fetchCEPInfo\<close> sends one GET request to the postal lookup and decodes the body of the
  response into a \<^verbatim>\<open>ViaCEPResponse\<close>; it returns an error when the call fails, when the body
  does not decode, and when the decoded \<open>Erro\<close> is true. \<^verbatim>\<open>fetchWeatherInfo\<close> returns the
  mock temperature without sending anything when \<^verbatim>\<open>WEATHER_API_KEY\<close> is empty or
  \<^verbatim>\<open>demo_key\<close>; otherwise it sends one GET request and returns an error when the call
  fails, when the status is not 200, and when the body does not decode. \<^verbatim>\<open>handleWeather\<close>
  is the handler of \<^verbatim>\<open>POST /weather\<close>; each \<^verbatim>\<open>c.JSON(...); return\<close> of the source is one
  result of the model.
\<close>

definition viacep_request :: "string \<Rightarrow> http_request" where
  "viacep_request cep =
     \<lparr>Method = ''GET'', URL = ''https://viacep.com.br/ws/'' @ cep @ ''/json/'',
      Header = [], ReqBody = None\<rparr>"

definition fetchCEPInfo :: "env \<Rightarrow> string \<Rightarrow> (go_error + ViaCEPResponse) \<times> http_request list" where
  "fetchCEPInfo e cep =
     (let req = viacep_request cep in
      case Do e req of
        Inl err \<Rightarrow> (Inl err, [req])
      | Inr resp \<Rightarrow>
          (case Decode (into_struct ViaCEPResponse_field) zero_ViaCEPResponse (Body resp) of
             Inl err \<Rightarrow> (Inl err, [req])
           | Inr cepResp \<Rightarrow>
               if Erro cepResp then (Inl CEPNotFound, [req]) else (Inr cepResp, [req])))"

definition weather_request :: "string \<Rightarrow> string \<Rightarrow> http_request" where
  "weather_request apiKey city =
     \<lparr>Method = ''GET'',
      URL = ''http://api.weatherapi.com/v1/current.json?key='' @ apiKey @ ''&q='' @ city
        @ ''&aqi=no'',
      Header = [], ReqBody = None\<rparr>"

definition fetchWeatherInfo ::
  "'f float64_ops \<Rightarrow> env \<Rightarrow> string \<Rightarrow> (go_error + 'f WeatherAPIResponse) \<times> http_request list" where
  "fetchWeatherInfo ops e city =
     (let apiKey = Getenv e ''WEATHER_API_KEY'' in
      if apiKey = '''' \<or> apiKey = ''demo_key''
      then (let mockTemp = f64_const ops 22.5 in
            (Inr \<lparr>Current = \<lparr>Current.TempC = mockTemp\<rparr>\<rparr>, []))
      else
        (let req = weather_request apiKey city in
         case Do e req of
           Inl err \<Rightarrow> (Inl err, [req])
         | Inr resp \<Rightarrow>
             if StatusCode resp \<noteq> 200 then (Inl (WeatherStatus (StatusCode resp)), [req])
             else
               (case Decode (into_struct (WeatherAPIResponse_field ops))
                       (zero_WeatherAPIResponse ops) (Body resp) of
                  Inl err \<Rightarrow> (Inl err, [req])
                | Inr weatherResp \<Rightarrow> (Inr weatherResp, [req]))))"

definition celsiusToFahrenheit :: "'f float64_ops \<Rightarrow> 'f \<Rightarrow> 'f" where
  "celsiusToFahrenheit ops celsius =
     f64_add ops (f64_mul ops celsius (f64_const ops 1.8)) (f64_const ops 32)"

definition celsiusToKelvin :: "'f float64_ops \<Rightarrow> 'f \<Rightarrow> 'f" where
  "celsiusToKelvin ops celsius = f64_add ops celsius (f64_const ops 273)"

definition handleWeather :: "'f float64_ops \<Rightarrow> env \<Rightarrow> body \<Rightarrow> 'f reply" where
  "handleWeather ops e b =
     (case ShouldBindJSON b of
        Inl err \<Rightarrow> ((422, PError \<lparr>Message = ''invalid zipcode''\<rparr>), [])
      | Inr req \<Rightarrow>
          if \<not> validateCEP (CEPRequest.CEP req)
          then ((422, PError \<lparr>Message = ''invalid zipcode''\<rparr>), [])
          else
            (case fetchCEPInfo e (CEPRequest.CEP req) of
               (Inl err, sent) \<Rightarrow> ((404, PError \<lparr>Message = ''can not find zipcode''\<rparr>), sent)
             | (Inr cepInfo, sent) \<Rightarrow>
                 (case fetchWeatherInfo ops e (Localidade cepInfo) of
                    (Inl err, sent') \<Rightarrow>
                      ((500, PError \<lparr>Message = ''failed to fetch weather information''\<rparr>),
                       sent @ sent')
                  | (Inr weatherInfo, sent') \<Rightarrow>
                      (let tempC = Current.TempC (Current weatherInfo);
                           tempF = celsiusToFahrenheit ops tempC;
                           tempK = celsiusToKelvin ops tempC;
                           response = \<lparr>City = Localidade cepInfo, TempC = tempC,
                             TempF = tempF, TempK = tempK\<rparr>
                       in ((200, PWeather response), sent @ sent')))))"

section \<open>The edge validator (service-a)\<close>

text \<open>
  \<^verbatim>\<open>forwardToServiceB\<close> posts \<^verbatim>\<open>{"cep": ...}\<close> to the orchestrator, at the address in
  \<^verbatim>\<open>SERVICE_B_URL\<close> or the default one (marshalling a struct with one string field cannot
  fail). \<^verbatim>\<open>handleCEP\<close> is the handler of \<^verbatim>\<open>POST /\<close>: it decodes the body of the
  orchestrator's response into an \<^verbatim>\<open>interface{}\<close> and passes the decoded value, with the
  status code of the response, to \<^verbatim>\<open>c.JSON\<close>.
\<close>

definition forwardToServiceB :: "env \<Rightarrow> string \<Rightarrow> (go_error + http_response) \<times> http_request list" where
  "forwardToServiceB e cep =
     (let serviceBURL = (if Getenv e ''SERVICE_B_URL'' = '''' then ''http://service-b:8081''
                         else Getenv e ''SERVICE_B_URL'');
          requestBody = \<lparr>CEPRequest.CEP = cep\<rparr>;
          jsonData = JObject [(''cep'', JString (CEPRequest.CEP requestBody))];
          req = \<lparr>Method = ''POST'', URL = serviceBURL @ ''/weather'',
                 Header = [(''Content-Type'', ''application/json'')], ReqBody = Some jsonData\<rparr>
      in (Do e req, [req]))"

definition handleCEP :: "'f float64_ops \<Rightarrow> env \<Rightarrow> body \<Rightarrow> 'f reply" where
  "handleCEP ops e b =
     (case ShouldBindJSON b of
        Inl err \<Rightarrow> ((422, PError \<lparr>Message = ''invalid zipcode''\<rparr>), [])
      | Inr req \<Rightarrow>
          if \<not> validateCEP (CEPRequest.CEP req)
          then ((422, PError \<lparr>Message = ''invalid zipcode''\<rparr>), [])
          else
            (case forwardToServiceB e (CEPRequest.CEP req) of
               (Inl err, sent) \<Rightarrow> ((500, PError \<lparr>Message = ''internal server error''\<rparr>), sent)
             | (Inr resp, sent) \<Rightarrow>
                 (case DecodeInterface ops (Body resp) of
                    Inl err \<Rightarrow> ((500, PError \<lparr>Message = ''internal server error''\<rparr>), sent)
                  | Inr responseBody \<Rightarrow> ((StatusCode resp, PValue responseBody), sent))))"

section \<open>The locality a lookup response gives\<close>

text \<open>
  What a JSON body says about a string field, read off the document without the decoder:
  the string of the last member of the object whose key names the field (ignoring case) and
  whose value is a string, and the empty string when there is no such member or the body
  is not an object. It is the reference the decoded \<open>Localidade\<close> is compared with.
\<close>

fun last_string :: "string \<Rightarrow> (string \<times> json) list \<Rightarrow> string \<Rightarrow> string" where
  "last_string name [] cur = cur"
| "last_string name ((k, v) # ms) cur =
     last_string name ms
       (if equalFold k name then (case v of JString s \<Rightarrow> s | _ \<Rightarrow> cur) else cur)"

definition string_member :: "string \<Rightarrow> body \<Rightarrow> string" where
  "string_member name b = (case b of Some (JObject ms) \<Rightarrow> last_string name ms '''' | _ \<Rightarrow> '''')"

section \<open>Concrete inputs\<close>

text \<open>
  An arithmetic to run the model on: exact rational arithmetic, in which the values used
  below (22.5 gives 72.5 and 295.5, 25 gives 77 and 298) are the ones \<^verbatim>\<open>float64\<close> gives as
  well.
\<close>

definition exact :: "rat float64_ops" where
  "exact = \<lparr>f64_const = (\<lambda>q. q), f64_parse = Some, f64_mul = (*), f64_add = (+)\<rparr>"

text \<open>The request body \<^verbatim>\<open>{"cep": "<cep>"}\<close>.\<close>

definition cep_body :: "string \<Rightarrow> body" where
  "cep_body cep = Some (JObject [(''cep'', JString cep)])"

text \<open>
  A world with the given value of \<^verbatim>\<open>WEATHER_API_KEY\<close> (every other variable unset), in which
  a request to the postal lookup has the outcome \<open>lookup\<close> and every other request (to the
  weather service, or from the edge validator to the orchestrator) the outcome \<open>other\<close>.
\<close>

definition world :: "string \<Rightarrow> (go_error + http_response) \<Rightarrow> (go_error + http_response) \<Rightarrow> env" where
  "world key lookup other =
     \<lparr>Getenv = (\<lambda>name. if name = ''WEATHER_API_KEY'' then key else ''''),
      Do = (\<lambda>r. if take 25 (URL r) = ''https://viacep.com.br/ws/'' then lookup else other)\<rparr>"

text \<open>Responses of the postal lookup: an address, and the struct it decodes to.\<close>

definition sao_paulo :: http_response where
  "sao_paulo = \<lparr>StatusCode = 200, Body = Some (JObject
     [(''cep'', JString ''01310-100''), (''logradouro'', JString ''Avenida Paulista''),
      (''bairro'', JString ''Bela Vista''), (''localidade'', JString ''Sao Paulo''),
      (''uf'', JString ''SP'')])\<rparr>"

definition sao_paulo_info :: ViaCEPResponse where
  "sao_paulo_info = \<lparr>ViaCEPResponse.CEP = ''01310-100'', Logradouro = ''Avenida Paulista'',
     Bairro = ''Bela Vista'', Localidade = ''Sao Paulo'', UF = ''SP'', Erro = False\<rparr>"

text \<open>
  A response whose body is not JSON, the body \<^verbatim>\<open>{"erro": true}\<close>, and the body \<^verbatim>\<open>{}\<close>.
\<close>

definition not_json :: http_response where
  "not_json = \<lparr>StatusCode = 400, Body = None\<rparr>"

definition erro_true :: http_response where
  "erro_true = \<lparr>StatusCode = 200, Body = Some (JObject [(''erro'', JBool True)])\<rparr>"

definition empty_object :: http_response where
  "empty_object = \<lparr>StatusCode = 200, Body = Some (JObject [])\<rparr>"

text \<open>
  Responses of the weather service: a refusal, a status 200 with a body that is not JSON,
  and the body \<^verbatim>\<open>{"current": {"temp_c": 25}}\<close>.
\<close>

definition unauthorized :: http_response where
  "unauthorized = \<lparr>StatusCode = 401, Body = Some (JObject [])\<rparr>"

definition truncated :: http_response where
  "truncated = \<lparr>StatusCode = 200, Body = None\<rparr>"

definition weather_25 :: http_response where
  "weather_25 = \<lparr>StatusCode = 200,
     Body = Some (JObject [(''current'', JObject [(''temp_c'', JNumber 25)])])\<rparr>"

text \<open>Responses of the orchestrator, as the edge validator receives them.\<close>

definition orchestrator_ok :: http_response where
  "orchestrator_ok = \<lparr>StatusCode = 200, Body = Some (JObject
     [(''city'', JString ''Sao Paulo''), (''temp_C'', JNumber 22.5), (''temp_F'', JNumber 72.5),
      (''temp_K'', JNumber 295.5)])\<rparr>"

definition orchestrator_not_found :: http_response where
  "orchestrator_not_found = \<lparr>StatusCode = 404, Body = Some (JObject
     [(''message'', JString ''can not find zipcode'')])\<rparr>"


section \<open>Validator: proofs\<close>

lemma digit_codes:
  "(of_char CHR ''0'' :: nat) = 48" "(of_char CHR ''1'' :: nat) = 49"
  "(of_char CHR ''2'' :: nat) = 50" "(of_char CHR ''3'' :: nat) = 51"
  "(of_char CHR ''4'' :: nat) = 52" "(of_char CHR ''5'' :: nat) = 53"
  "(of_char CHR ''6'' :: nat) = 54" "(of_char CHR ''7'' :: nat) = 55"
  "(of_char CHR ''8'' :: nat) = 56" "(of_char CHR ''9'' :: nat) = 57"
  by simp_all

lemma is_digit_iff: "is_digit c \<longleftrightarrow> c \<in> set ''0123456789''"
proof
  assume d: "is_digit c"
  define n where "n = (of_char c :: nat)"
  from d have "n = 48 \<or> n = 49 \<or> n = 50 \<or> n = 51 \<or> n = 52 \<or> n = 53 \<or> n = 54 \<or> n = 55
      \<or> n = 56 \<or> n = 57"
    unfolding is_digit_def n_def by arith
  then have "n = of_char CHR ''0'' \<or> n = of_char CHR ''1'' \<or> n = of_char CHR ''2''
      \<or> n = of_char CHR ''3'' \<or> n = of_char CHR ''4'' \<or> n = of_char CHR ''5''
      \<or> n = of_char CHR ''6'' \<or> n = of_char CHR ''7'' \<or> n = of_char CHR ''8''
      \<or> n = of_char CHR ''9''"
    by (simp only: digit_codes)
  then have "c = CHR ''0'' \<or> c = CHR ''1'' \<or> c = CHR ''2'' \<or> c = CHR ''3'' \<or> c = CHR ''4''
      \<or> c = CHR ''5'' \<or> c = CHR ''6'' \<or> c = CHR ''7'' \<or> c = CHR ''8'' \<or> c = CHR ''9''"
    unfolding n_def by (simp only: of_char_eq_iff)
  then show "c \<in> set ''0123456789''"
    by (simp only: list.set insert_iff) blast
next
  assume "c \<in> set ''0123456789''"
  then have "c = CHR ''0'' \<or> c = CHR ''1'' \<or> c = CHR ''2'' \<or> c = CHR ''3'' \<or> c = CHR ''4''
      \<or> c = CHR ''5'' \<or> c = CHR ''6'' \<or> c = CHR ''7'' \<or> c = CHR ''8'' \<or> c = CHR ''9''"
    by (simp only: list.set insert_iff empty_iff) blast
  then show "is_digit c"
    unfolding is_digit_def by (elim disjE) (simp_all only: digit_codes, simp_all)
qed

lemma run_Digit_Nil: "run Digit (b, []) = []"
  by simp

lemma run_Digit_Cons: "run Digit (b, c # cs) = (if is_digit c then [(False, cs)] else [])"
  by simp

lemma times_Digit:
  "times n (run Digit) (b, s) =
     (if n \<le> length s \<and> list_all is_digit (take n s) then [(b \<and> n = 0, drop n s)] else [])"
proof (induction n arbitrary: b s)
  case 0
  show ?case by simp
next
  case (Suc n)
  show ?case
  proof (cases s)
    case Nil
    then show ?thesis by (simp only: times.simps run_Digit_Nil) simp
  next
    case (Cons c cs)
    have "times (Suc n) (run Digit) (b, c # cs) =
        (if is_digit c then times n (run Digit) (False, cs) else [])"
      by (simp only: times.simps run_Digit_Cons) (simp del: run.simps)
    with Cons show ?thesis by (simp add: Suc.IH del: run.simps times.simps)
  qed
qed

lemma run_cep_pattern:
  "run cep_pattern (b, s) =
     (if b \<and> length s = 8 \<and> list_all is_digit s then [(False, [])] else [])"
proof -
  have "run cep_pattern (b, s) =
      (if b then concat (map (run EndText) (times 8 (run Digit) (b, s))) else [])"
    by (simp add: cep_pattern_def del: run.simps(3))
  then show ?thesis
    by (simp only: times_Digit) simp
qed

lemma MatchString_cep_pattern:
  "MatchString cep_pattern s \<longleftrightarrow> length s = 8 \<and> list_all is_digit s"
  by (simp add: MatchString_def run_cep_pattern list_ex_iff)

text \<open>
  Claim C1. For every string \<open>s\<close>, \<open>validateCEP\<close> returns valid if and only if \<open>s\<close> has
  length exactly 8 and every character of \<open>s\<close> is one of the ten decimal digits; so it
  returns invalid for every string of another length and for every string holding a
  character that is not a digit. The function is total (it is a HOL function of the string
  alone, with no other input and no effect).
\<close>

theorem validateCEP_iff:
  "validateCEP s \<longleftrightarrow> length s = 8 \<and> (\<forall>c \<in> set s. c \<in> set ''0123456789'')"
  unfolding validateCEP_def MatchString_cep_pattern list_all_iff is_digit_iff by simp

theorem validateCEP_iff_witness:
  "validateCEP ''01310100'' \<and> \<not> validateCEP ''123'' \<and> \<not> validateCEP ''abcd1234''
    \<and> \<not> validateCEP ''123456789'' \<and> \<not> validateCEP '' 1310100''"
  using validateCEP_iff [of "''01310100''"] validateCEP_iff [of "''123''"]
    validateCEP_iff [of "''abcd1234''"] validateCEP_iff [of "''123456789''"]
    validateCEP_iff [of "'' 1310100''"]
  by simp

section \<open>Concrete inputs: evaluation\<close>

lemma valid_01310100: "validateCEP ''01310100''"
  by code_simp

lemma invalid_123: "\<not> validateCEP ''123''"
  by code_simp

lemma bind_01310100:
  "ShouldBindJSON (cep_body ''01310100'') = Inr \<lparr>CEPRequest.CEP = ''01310100''\<rparr>"
  by code_simp

lemma bind_123: "ShouldBindJSON (cep_body ''123'') = Inr \<lparr>CEPRequest.CEP = ''123''\<rparr>"
  by code_simp

lemma decode_sao_paulo:
  "Decode (into_struct ViaCEPResponse_field) zero_ViaCEPResponse (Body sao_paulo)
     = Inr sao_paulo_info"
  by code_simp

lemma world_lookup: "Do (world key lookup other) (viacep_request cep) = lookup"
  by (simp add: world_def viacep_request_def)

lemma world_weather: "Do (world key lookup other) (weather_request k city) = other"
  by (simp add: world_def weather_request_def)

lemma world_key: "Getenv (world key lookup other) ''WEATHER_API_KEY'' = key"
  by (simp add: world_def)

section \<open>The orchestrator: proofs\<close>

lemma fetchCEPInfo_sent: "snd (fetchCEPInfo e cep) = [viacep_request cep]"
  by (simp add: fetchCEPInfo_def Let_def split: sum.splits)

lemma fetchCEPInfo_cases:
  "fst (fetchCEPInfo e cep) =
     (case Do e (viacep_request cep) of
        Inl err \<Rightarrow> Inl err
      | Inr resp \<Rightarrow>
          (case Decode (into_struct ViaCEPResponse_field) zero_ViaCEPResponse (Body resp) of
             Inl err \<Rightarrow> Inl err
           | Inr cepResp \<Rightarrow> if Erro cepResp then Inl CEPNotFound else Inr cepResp))"
  by (simp add: fetchCEPInfo_def Let_def split: sum.splits)

lemma fetchCEPInfo_sao_paulo:
  "fst (fetchCEPInfo (world key (Inr sao_paulo) other) cep) = Inr sao_paulo_info"
  by (simp add: fetchCEPInfo_cases world_lookup decode_sao_paulo sao_paulo_info_def)

lemma fetchWeatherInfo_mock:
  "Getenv e ''WEATHER_API_KEY'' = '''' \<or> Getenv e ''WEATHER_API_KEY'' = ''demo_key'' \<Longrightarrow>
   fetchWeatherInfo ops e city = (Inr \<lparr>Current = \<lparr>Current.TempC = f64_const ops 22.5\<rparr>\<rparr>, [])"
  by (auto simp: fetchWeatherInfo_def Let_def)

lemma fetchWeatherInfo_live:
  assumes "Getenv e ''WEATHER_API_KEY'' \<noteq> ''''" and "Getenv e ''WEATHER_API_KEY'' \<noteq> ''demo_key''"
  shows "fst (fetchWeatherInfo ops e city) =
     (case Do e (weather_request (Getenv e ''WEATHER_API_KEY'') city) of
        Inl err \<Rightarrow> Inl err
      | Inr resp \<Rightarrow>
          if StatusCode resp \<noteq> 200 then Inl (WeatherStatus (StatusCode resp))
          else Decode (into_struct (WeatherAPIResponse_field ops)) (zero_WeatherAPIResponse ops)
                 (Body resp))"
  using assms by (simp add: fetchWeatherInfo_def Let_def split: sum.splits)

lemma handleWeather_invalid:
  "ShouldBindJSON b = Inr req \<Longrightarrow> \<not> validateCEP (CEPRequest.CEP req) \<Longrightarrow>
   handleWeather ops e b = ((422, PError \<lparr>Message = ''invalid zipcode''\<rparr>), [])"
  by (simp add: handleWeather_def)

lemma handleWeather_lookup_error:
  "ShouldBindJSON b = Inr req \<Longrightarrow> validateCEP (CEPRequest.CEP req) \<Longrightarrow>
   fst (fetchCEPInfo e (CEPRequest.CEP req)) = Inl err \<Longrightarrow>
   handleWeather ops e b =
     ((404, PError \<lparr>Message = ''can not find zipcode''\<rparr>), [viacep_request (CEPRequest.CEP req)])"
  using fetchCEPInfo_sent [of e "CEPRequest.CEP req"]
  by (cases "fetchCEPInfo e (CEPRequest.CEP req)") (simp add: handleWeather_def)

lemma handleWeather_weather_error:
  "ShouldBindJSON b = Inr req \<Longrightarrow> validateCEP (CEPRequest.CEP req) \<Longrightarrow>
   fst (fetchCEPInfo e (CEPRequest.CEP req)) = Inr info \<Longrightarrow>
   fst (fetchWeatherInfo ops e (Localidade info)) = Inl err \<Longrightarrow>
   fst (handleWeather ops e b) =
     (500, PError \<lparr>Message = ''failed to fetch weather information''\<rparr>)"
  by (cases "fetchCEPInfo e (CEPRequest.CEP req)"; cases "fetchWeatherInfo ops e (Localidade info)")
    (simp add: handleWeather_def)

lemma handleWeather_success:
  "ShouldBindJSON b = Inr req \<Longrightarrow> validateCEP (CEPRequest.CEP req) \<Longrightarrow>
   fst (fetchCEPInfo e (CEPRequest.CEP req)) = Inr info \<Longrightarrow>
   fetchWeatherInfo ops e (Localidade info) = (Inr w, sent) \<Longrightarrow>
   handleWeather ops e b =
     ((200, PWeather \<lparr>City = Localidade info, TempC = Current.TempC (Current w),
         TempF = celsiusToFahrenheit ops (Current.TempC (Current w)),
         TempK = celsiusToKelvin ops (Current.TempC (Current w))\<rparr>),
      viacep_request (CEPRequest.CEP req) # sent)"
  using fetchCEPInfo_sent [of e "CEPRequest.CEP req"]
  by (cases "fetchCEPInfo e (CEPRequest.CEP req)") (simp add: handleWeather_def Let_def)

lemma handleWeather_200:
  assumes "fst (handleWeather ops e b) = (200, p)"
  shows "\<exists>req info w. ShouldBindJSON b = Inr req \<and> validateCEP (CEPRequest.CEP req)
     \<and> fst (fetchCEPInfo e (CEPRequest.CEP req)) = Inr info
     \<and> fst (fetchWeatherInfo ops e (Localidade info)) = Inr w
     \<and> p = PWeather \<lparr>City = Localidade info, TempC = Current.TempC (Current w),
         TempF = celsiusToFahrenheit ops (Current.TempC (Current w)),
         TempK = celsiusToKelvin ops (Current.TempC (Current w))\<rparr>"
  using assms
  by (auto simp: handleWeather_def Let_def split: sum.splits prod.splits if_splits)

lemma handleWeather_sao_paulo:
  "handleWeather exact (world '''' (Inr sao_paulo) other) (cep_body ''01310100'') =
     ((200, PWeather \<lparr>City = ''Sao Paulo'', TempC = 22.5, TempF = 72.5, TempK = 295.5\<rparr>),
      [viacep_request ''01310100''])"
proof -
  have "fetchWeatherInfo exact (world '''' (Inr sao_paulo) other) (Localidade sao_paulo_info)
      = (Inr \<lparr>Current = \<lparr>Current.TempC = f64_const exact 22.5\<rparr>\<rparr>, [])"
    by (rule fetchWeatherInfo_mock) (simp add: world_key)
  from handleWeather_success [where e = "world [] (Inr sao_paulo) other"
      and info = sao_paulo_info, OF bind_01310100 _ _ this]
  show ?thesis
    by (simp add: valid_01310100 fetchCEPInfo_sao_paulo celsiusToFahrenheit_def
        celsiusToKelvin_def exact_def sao_paulo_info_def)
qed

text \<open>
  Claim C2. Every reply of the orchestrator with status 200 carries a WeatherResponse whose
  Fahrenheit field is its Celsius field times 1.8 plus 32 and whose Kelvin field is its
  Celsius field plus 273 (the offset is 273), computed with the \<^verbatim>\<open>float64\<close> operators of the
  code from the constants of the code.
\<close>

theorem handleWeather_temperatures:
  fixes ops :: "'f float64_ops"
  assumes "fst (handleWeather ops e b) = (200, p)"
  shows "\<exists>r. p = PWeather r
     \<and> TempF r = f64_add ops (f64_mul ops (TempC r) (f64_const ops 1.8)) (f64_const ops 32)
     \<and> TempK r = f64_add ops (TempC r) (f64_const ops 273)"
proof -
  from handleWeather_200 [OF assms]
  obtain info :: ViaCEPResponse and w :: "'f WeatherAPIResponse" where
    "p = PWeather \<lparr>City = Localidade info, TempC = Current.TempC (Current w),
         TempF = celsiusToFahrenheit ops (Current.TempC (Current w)),
         TempK = celsiusToKelvin ops (Current.TempC (Current w))\<rparr>"
    by blast
  then show ?thesis
    by (simp add: celsiusToFahrenheit_def celsiusToKelvin_def)
qed

theorem handleWeather_temperatures_witness:
  "fst (handleWeather exact (world '''' (Inr sao_paulo) (Inl TransportError))
     (cep_body ''01310100''))
     = (200, PWeather \<lparr>City = ''Sao Paulo'', TempC = 22.5, TempF = 72.5, TempK = 295.5\<rparr>)
   \<and> (\<exists>r. PWeather \<lparr>City = ''Sao Paulo'', TempC = 22.5, TempF = 72.5, TempK = 295.5\<rparr>
          = PWeather r
        \<and> TempF r = f64_add exact (f64_mul exact (TempC r) (f64_const exact 1.8))
            (f64_const exact 32)
        \<and> TempK r = f64_add exact (TempC r) (f64_const exact 273))"
proof -
  have h: "fst (handleWeather exact (world '''' (Inr sao_paulo) (Inl TransportError))
      (cep_body ''01310100''))
      = (200, PWeather \<lparr>City = ''Sao Paulo'', TempC = 22.5, TempF = 72.5, TempK = 295.5\<rparr>)"
    by (simp add: handleWeather_sao_paulo)
  from handleWeather_temperatures [OF h] h show ?thesis
    by blast
qed

lemma fetchCEPInfo_transport:
  "Do e (viacep_request cep) = Inl err \<Longrightarrow> fst (fetchCEPInfo e cep) = Inl err"
  by (simp add: fetchCEPInfo_cases)

lemma fetchCEPInfo_decode:
  "Do e (viacep_request cep) = Inr resp \<Longrightarrow>
   Decode (into_struct ViaCEPResponse_field) zero_ViaCEPResponse (Body resp) = Inl err \<Longrightarrow>
   fst (fetchCEPInfo e cep) = Inl err"
  by (simp add: fetchCEPInfo_cases)

lemma fetchCEPInfo_erro:
  "Do e (viacep_request cep) = Inr resp \<Longrightarrow>
   Decode (into_struct ViaCEPResponse_field) zero_ViaCEPResponse (Body resp) = Inr info \<Longrightarrow>
   Erro info \<Longrightarrow> fst (fetchCEPInfo e cep) = Inl CEPNotFound"
  by (simp add: fetchCEPInfo_cases)

lemma fetchCEPInfo_found:
  "Do e (viacep_request cep) = Inr resp \<Longrightarrow>
   Decode (into_struct ViaCEPResponse_field) zero_ViaCEPResponse (Body resp) = Inr info \<Longrightarrow>
   \<not> Erro info \<Longrightarrow> fst (fetchCEPInfo e cep) = Inr info"
  by (simp add: fetchCEPInfo_cases)

lemma fetchWeatherInfo_transport:
  "Getenv e ''WEATHER_API_KEY'' \<noteq> '''' \<Longrightarrow> Getenv e ''WEATHER_API_KEY'' \<noteq> ''demo_key'' \<Longrightarrow>
   Do e (weather_request (Getenv e ''WEATHER_API_KEY'') city) = Inl err \<Longrightarrow>
   fst (fetchWeatherInfo ops e city) = Inl err"
  by (simp add: fetchWeatherInfo_live)

lemma fetchWeatherInfo_status:
  "Getenv e ''WEATHER_API_KEY'' \<noteq> '''' \<Longrightarrow> Getenv e ''WEATHER_API_KEY'' \<noteq> ''demo_key'' \<Longrightarrow>
   Do e (weather_request (Getenv e ''WEATHER_API_KEY'') city) = Inr resp \<Longrightarrow>
   StatusCode resp \<noteq> 200 \<Longrightarrow>
   fst (fetchWeatherInfo ops e city) = Inl (WeatherStatus (StatusCode resp))"
  by (simp add: fetchWeatherInfo_live)

lemma fetchWeatherInfo_decode:
  "Getenv e ''WEATHER_API_KEY'' \<noteq> '''' \<Longrightarrow> Getenv e ''WEATHER_API_KEY'' \<noteq> ''demo_key'' \<Longrightarrow>
   Do e (weather_request (Getenv e ''WEATHER_API_KEY'') city) = Inr resp \<Longrightarrow>
   StatusCode resp = 200 \<Longrightarrow>
   fst (fetchWeatherInfo ops e city) =
     Decode (into_struct (WeatherAPIResponse_field ops)) (zero_WeatherAPIResponse ops) (Body resp)"
  by (simp add: fetchWeatherInfo_live)

lemma handleWeather_success_fst:
  "ShouldBindJSON b = Inr req \<Longrightarrow> validateCEP (CEPRequest.CEP req) \<Longrightarrow>
   fst (fetchCEPInfo e (CEPRequest.CEP req)) = Inr info \<Longrightarrow>
   fst (fetchWeatherInfo ops e (Localidade info)) = Inr w \<Longrightarrow>
   fst (handleWeather ops e b) =
     (200, PWeather \<lparr>City = Localidade info, TempC = Current.TempC (Current w),
         TempF = celsiusToFahrenheit ops (Current.TempC (Current w)),
         TempK = celsiusToKelvin ops (Current.TempC (Current w))\<rparr>)"
  by (cases "fetchWeatherInfo ops e (Localidade info)") (simp add: handleWeather_success)

lemma handleWeather_bind_error:
  "ShouldBindJSON b = Inl err \<Longrightarrow>
   handleWeather ops e b = ((422, PError \<lparr>Message = ''invalid zipcode''\<rparr>), [])"
  by (simp add: handleWeather_def)

lemma bind_cep_body:
  "ShouldBindJSON (cep_body cep) =
     (if cep = '''' then Inl ValidationError else Inr \<lparr>CEPRequest.CEP = cep\<rparr>)"
  by (simp add: ShouldBindJSON_def cep_body_def Decode_def into_struct_def CEPRequest_field_def
      equalFold_def into_string_def zero_CEPRequest_def)

lemma handleWeather_cep_body_invalid:
  assumes "\<not> validateCEP cep"
  shows "fst (handleWeather ops e (cep_body cep))
     = (422, PError \<lparr>Message = ''invalid zipcode''\<rparr>)"
proof (cases "cep = ''''")
  case True
  then have "ShouldBindJSON (cep_body cep) = Inl ValidationError"
    by (simp add: bind_cep_body)
  then show ?thesis
    by (simp add: handleWeather_bind_error)
next
  case False
  then have b: "ShouldBindJSON (cep_body cep) = Inr \<lparr>CEPRequest.CEP = cep\<rparr>"
    by (simp add: bind_cep_body)
  from assms have n: "\<not> validateCEP (CEPRequest.CEP \<lparr>CEPRequest.CEP = cep\<rparr>)"
    by simp
  show ?thesis
    by (simp add: handleWeather_invalid [OF b n])
qed

text \<open>
  Claim C3. The orchestrator maps each failure class to a fixed status and message:
  \<^item> the postal code fails validation: 422, "invalid zipcode". This holds for every string
    \<open>cep\<close> sent as \<^verbatim>\<open>{"cep": cep}\<close>, the empty one included (which the binding rejects before
    the validator sees it), for every body that does not bind to a request, and for every
    bound request whose postal code fails validation;
  \<^item> the postal lookup fails (the call returns an error, the body of its response does not
    decode, or the decoded response has \<open>erro\<close> set): 404, "can not find zipcode";
  \<^item> a credential is configured and the weather call fails (the call returns an error, the
    response has a status other than 200, or its body does not decode): 500,
    "failed to fetch weather information";
  \<^item> every stage succeeds: 200 with the WeatherResponse made of the locality and the
    Celsius value obtained.
\<close>

theorem handleWeather_status_mapping:
  fixes ops :: "'f float64_ops"
  shows
    "(ShouldBindJSON b = Inl berr \<longrightarrow>
        fst (handleWeather ops e b) = (422, PError \<lparr>Message = ''invalid zipcode''\<rparr>))
     \<and> (\<not> validateCEP cep \<longrightarrow>
        fst (handleWeather ops e (cep_body cep))
          = (422, PError \<lparr>Message = ''invalid zipcode''\<rparr>))
     \<and> (ShouldBindJSON b = Inr req \<and> \<not> validateCEP (CEPRequest.CEP req) \<longrightarrow>
        fst (handleWeather ops e b) = (422, PError \<lparr>Message = ''invalid zipcode''\<rparr>))
     \<and> (ShouldBindJSON b = Inr req \<and> validateCEP (CEPRequest.CEP req)
          \<and> Do e (viacep_request (CEPRequest.CEP req)) = Inl err \<longrightarrow>
        fst (handleWeather ops e b) = (404, PError \<lparr>Message = ''can not find zipcode''\<rparr>))
     \<and> (ShouldBindJSON b = Inr req \<and> validateCEP (CEPRequest.CEP req)
          \<and> Do e (viacep_request (CEPRequest.CEP req)) = Inr resp
          \<and> Decode (into_struct ViaCEPResponse_field) zero_ViaCEPResponse (Body resp) = Inl err \<longrightarrow>
        fst (handleWeather ops e b) = (404, PError \<lparr>Message = ''can not find zipcode''\<rparr>))
     \<and> (ShouldBindJSON b = Inr req \<and> validateCEP (CEPRequest.CEP req)
          \<and> Do e (viacep_request (CEPRequest.CEP req)) = Inr resp
          \<and> Decode (into_struct ViaCEPResponse_field) zero_ViaCEPResponse (Body resp) = Inr info
          \<and> Erro info \<longrightarrow>
        fst (handleWeather ops e b) = (404, PError \<lparr>Message = ''can not find zipcode''\<rparr>))
     \<and> (ShouldBindJSON b = Inr req \<and> validateCEP (CEPRequest.CEP req)
          \<and> fst (fetchCEPInfo e (CEPRequest.CEP req)) = Inr info
          \<and> Getenv e ''WEATHER_API_KEY'' \<noteq> '''' \<and> Getenv e ''WEATHER_API_KEY'' \<noteq> ''demo_key''
          \<and> Do e (weather_request (Getenv e ''WEATHER_API_KEY'') (Localidade info)) = Inl err \<longrightarrow>
        fst (handleWeather ops e b)
          = (500, PError \<lparr>Message = ''failed to fetch weather information''\<rparr>))
     \<and> (ShouldBindJSON b = Inr req \<and> validateCEP (CEPRequest.CEP req)
          \<and> fst (fetchCEPInfo e (CEPRequest.CEP req)) = Inr info
          \<and> Getenv e ''WEATHER_API_KEY'' \<noteq> '''' \<and> Getenv e ''WEATHER_API_KEY'' \<noteq> ''demo_key''
          \<and> Do e (weather_request (Getenv e ''WEATHER_API_KEY'') (Localidade info)) = Inr wresp
          \<and> StatusCode wresp \<noteq> 200 \<longrightarrow>
        fst (handleWeather ops e b)
          = (500, PError \<lparr>Message = ''failed to fetch weather information''\<rparr>))
     \<and> (ShouldBindJSON b = Inr req \<and> validateCEP (CEPRequest.CEP req)
          \<and> fst (fetchCEPInfo e (CEPRequest.CEP req)) = Inr info
          \<and> Getenv e ''WEATHER_API_KEY'' \<noteq> '''' \<and> Getenv e ''WEATHER_API_KEY'' \<noteq> ''demo_key''
          \<and> Do e (weather_request (Getenv e ''WEATHER_API_KEY'') (Localidade info)) = Inr wresp
          \<and> StatusCode wresp = 200
          \<and> Decode (into_struct (WeatherAPIResponse_field ops)) (zero_WeatherAPIResponse ops)
               (Body wresp) = Inl err \<longrightarrow>
        fst (handleWeather ops e b)
          = (500, PError \<lparr>Message = ''failed to fetch weather information''\<rparr>))
     \<and> (ShouldBindJSON b = Inr req \<and> validateCEP (CEPRequest.CEP req)
          \<and> fst (fetchCEPInfo e (CEPRequest.CEP req)) = Inr info
          \<and> fst (fetchWeatherInfo ops e (Localidade info)) = Inr w \<longrightarrow>
        fst (handleWeather ops e b)
          = (200, PWeather \<lparr>City = Localidade info, TempC = Current.TempC (Current w),
               TempF = celsiusToFahrenheit ops (Current.TempC (Current w)),
               TempK = celsiusToKelvin ops (Current.TempC (Current w))\<rparr>))"
proof (intro conjI impI; (elim conjE)?)
  assume "ShouldBindJSON b = Inl berr"
  then show "fst (handleWeather ops e b) = (422, PError \<lparr>Message = ''invalid zipcode''\<rparr>)"
    by (simp add: handleWeather_bind_error)
next
  assume "\<not> validateCEP cep"
  then show "fst (handleWeather ops e (cep_body cep))
      = (422, PError \<lparr>Message = ''invalid zipcode''\<rparr>)"
    by (rule handleWeather_cep_body_invalid)
next
  assume "ShouldBindJSON b = Inr req" "\<not> validateCEP (CEPRequest.CEP req)"
  then show "fst (handleWeather ops e b) = (422, PError \<lparr>Message = ''invalid zipcode''\<rparr>)"
    by (simp add: handleWeather_invalid)
next
  assume "ShouldBindJSON b = Inr req" "validateCEP (CEPRequest.CEP req)" "Do e (viacep_request (CEPRequest.CEP req)) = Inl err"
  then show "fst (handleWeather ops e b) = (404, PError \<lparr>Message = ''can not find zipcode''\<rparr>)"
    by (simp add: handleWeather_lookup_error [OF _ _ fetchCEPInfo_transport])
next
  assume "ShouldBindJSON b = Inr req" "validateCEP (CEPRequest.CEP req)" "Do e (viacep_request (CEPRequest.CEP req)) = Inr resp"
    "Decode (into_struct ViaCEPResponse_field) zero_ViaCEPResponse (Body resp) = Inl err"
  then show "fst (handleWeather ops e b) = (404, PError \<lparr>Message = ''can not find zipcode''\<rparr>)"
    by (simp add: handleWeather_lookup_error [OF _ _ fetchCEPInfo_decode])
next
  assume "ShouldBindJSON b = Inr req" "validateCEP (CEPRequest.CEP req)" "Do e (viacep_request (CEPRequest.CEP req)) = Inr resp"
    "Decode (into_struct ViaCEPResponse_field) zero_ViaCEPResponse (Body resp) = Inr info"
    "Erro info"
  then show "fst (handleWeather ops e b) = (404, PError \<lparr>Message = ''can not find zipcode''\<rparr>)"
    by (simp add: handleWeather_lookup_error [OF _ _ fetchCEPInfo_erro])
next
  assume "ShouldBindJSON b = Inr req" "validateCEP (CEPRequest.CEP req)" "fst (fetchCEPInfo e (CEPRequest.CEP req)) = Inr info"
    "Getenv e ''WEATHER_API_KEY'' \<noteq> ''''" "Getenv e ''WEATHER_API_KEY'' \<noteq> ''demo_key''"
    "Do e (weather_request (Getenv e ''WEATHER_API_KEY'') (Localidade info)) = Inl err"
  then show "fst (handleWeather ops e b)
      = (500, PError \<lparr>Message = ''failed to fetch weather information''\<rparr>)"
    by (simp add: handleWeather_weather_error [OF _ _ _ fetchWeatherInfo_transport])
next
  assume "ShouldBindJSON b = Inr req" "validateCEP (CEPRequest.CEP req)" "fst (fetchCEPInfo e (CEPRequest.CEP req)) = Inr info"
    "Getenv e ''WEATHER_API_KEY'' \<noteq> ''''" "Getenv e ''WEATHER_API_KEY'' \<noteq> ''demo_key''"
    "Do e (weather_request (Getenv e ''WEATHER_API_KEY'') (Localidade info)) = Inr wresp"
    "StatusCode wresp \<noteq> 200"
  then show "fst (handleWeather ops e b)
      = (500, PError \<lparr>Message = ''failed to fetch weather information''\<rparr>)"
    by (simp add: handleWeather_weather_error [OF _ _ _ fetchWeatherInfo_status])
next
  assume bind: "ShouldBindJSON b = Inr req"
    and v: "validateCEP (CEPRequest.CEP req)"
    and i: "fst (fetchCEPInfo e (CEPRequest.CEP req)) = Inr info"
    and k: "Getenv e ''WEATHER_API_KEY'' \<noteq> ''''" "Getenv e ''WEATHER_API_KEY'' \<noteq> ''demo_key''"
    and d: "Do e (weather_request (Getenv e ''WEATHER_API_KEY'') (Localidade info)) = Inr wresp"
    and s: "StatusCode wresp = 200"
    and x: "Decode (into_struct (WeatherAPIResponse_field ops)) (zero_WeatherAPIResponse ops)
               (Body wresp) = Inl err"
  from fetchWeatherInfo_decode [OF k d s, of ops] x
  have "fst (fetchWeatherInfo ops e (Localidade info)) = Inl err" by simp
  from handleWeather_weather_error [OF bind v i this]
  show "fst (handleWeather ops e b)
      = (500, PError \<lparr>Message = ''failed to fetch weather information''\<rparr>)" .
next
  assume "ShouldBindJSON b = Inr req" "validateCEP (CEPRequest.CEP req)" "fst (fetchCEPInfo e (CEPRequest.CEP req)) = Inr info"
    "fst (fetchWeatherInfo ops e (Localidade info)) = Inr w"
  then show "fst (handleWeather ops e b)
          = (200, PWeather \<lparr>City = Localidade info, TempC = Current.TempC (Current w),
               TempF = celsiusToFahrenheit ops (Current.TempC (Current w)),
               TempK = celsiusToKelvin ops (Current.TempC (Current w))\<rparr>)"
    by (simp add: handleWeather_success_fst)
qed

lemma fetchWeatherInfo_25:
  "fst (fetchWeatherInfo exact (world ''k3y'' lookup (Inr weather_25)) city)
     = Inr \<lparr>Current = \<lparr>Current.TempC = 25\<rparr>\<rparr>"
proof -
  have "Decode (into_struct (WeatherAPIResponse_field exact)) (zero_WeatherAPIResponse exact)
      (Body weather_25) = Inr \<lparr>Current = \<lparr>Current.TempC = 25\<rparr>\<rparr>"
    by code_simp
  then show ?thesis
    by (simp add: fetchWeatherInfo_live world_key world_weather weather_25_def)
qed

theorem handleWeather_status_mapping_witness:
  "fst (handleWeather exact (world '''' (Inr sao_paulo) (Inl TransportError)) None)
     = (422, PError \<lparr>Message = ''invalid zipcode''\<rparr>)
   \<and> fst (handleWeather exact (world '''' (Inr sao_paulo) (Inl TransportError)) (cep_body ''''))
     = (422, PError \<lparr>Message = ''invalid zipcode''\<rparr>)
   \<and> fst (handleWeather exact (world '''' (Inr sao_paulo) (Inl TransportError))
        (cep_body ''abcd1234''))
     = (422, PError \<lparr>Message = ''invalid zipcode''\<rparr>)
   \<and> fst (handleWeather exact (world '''' (Inr sao_paulo) (Inl TransportError)) (cep_body ''123''))
     = (422, PError \<lparr>Message = ''invalid zipcode''\<rparr>)
   \<and> fst (handleWeather exact (world '''' (Inl TransportError) (Inl TransportError))
        (cep_body ''01310100''))
     = (404, PError \<lparr>Message = ''can not find zipcode''\<rparr>)
   \<and> fst (handleWeather exact (world '''' (Inr not_json) (Inl TransportError))
        (cep_body ''01310100''))
     = (404, PError \<lparr>Message = ''can not find zipcode''\<rparr>)
   \<and> fst (handleWeather exact (world '''' (Inr erro_true) (Inl TransportError))
        (cep_body ''01310100''))
     = (404, PError \<lparr>Message = ''can not find zipcode''\<rparr>)
   \<and> fst (handleWeather exact (world ''k3y'' (Inr sao_paulo) (Inl TransportError))
        (cep_body ''01310100''))
     = (500, PError \<lparr>Message = ''failed to fetch weather information''\<rparr>)
   \<and> fst (handleWeather exact (world ''k3y'' (Inr sao_paulo) (Inr unauthorized))
        (cep_body ''01310100''))
     = (500, PError \<lparr>Message = ''failed to fetch weather information''\<rparr>)
   \<and> fst (handleWeather exact (world ''k3y'' (Inr sao_paulo) (Inr truncated))
        (cep_body ''01310100''))
     = (500, PError \<lparr>Message = ''failed to fetch weather information''\<rparr>)
   \<and> fst (handleWeather exact (world ''k3y'' (Inr sao_paulo) (Inr weather_25))
        (cep_body ''01310100''))
     = (200, PWeather \<lparr>City = ''Sao Paulo'', TempC = 25, TempF = 77, TempK = 298\<rparr>)"
proof (intro conjI)
  have "ShouldBindJSON None = Inl SyntaxError"
    by (simp add: ShouldBindJSON_def Decode_def)
  then show "fst (handleWeather exact (world '''' (Inr sao_paulo) (Inl TransportError)) None)
     = (422, PError \<lparr>Message = ''invalid zipcode''\<rparr>)"
    using handleWeather_status_mapping [where ops = exact and b = None and berr = SyntaxError]
    by simp
next
  have "\<not> validateCEP ''''"
    by (simp add: validateCEP_def)
  then show "fst (handleWeather exact (world '''' (Inr sao_paulo) (Inl TransportError))
      (cep_body ''''))
     = (422, PError \<lparr>Message = ''invalid zipcode''\<rparr>)"
    using handleWeather_status_mapping [where ops = exact and cep = "''''"]
    by simp
next
  have "\<not> validateCEP ''abcd1234''"
    by code_simp
  then show "fst (handleWeather exact (world '''' (Inr sao_paulo) (Inl TransportError))
        (cep_body ''abcd1234''))
     = (422, PError \<lparr>Message = ''invalid zipcode''\<rparr>)"
    using handleWeather_status_mapping [where ops = exact and cep = "''abcd1234''"]
    by simp
next
  show "fst (handleWeather exact (world '''' (Inr sao_paulo) (Inl TransportError)) (cep_body ''123''))
     = (422, PError \<lparr>Message = ''invalid zipcode''\<rparr>)"
    using handleWeather_status_mapping [where ops = exact and b = "cep_body ''123''"
        and req = "\<lparr>CEPRequest.CEP = ''123''\<rparr>"]
    by (simp add: bind_123 invalid_123)
next
  show "fst (handleWeather exact (world '''' (Inl TransportError) (Inl TransportError))
        (cep_body ''01310100''))
     = (404, PError \<lparr>Message = ''can not find zipcode''\<rparr>)"
    using handleWeather_status_mapping [where ops = exact
        and e = "world '''' (Inl TransportError) (Inl TransportError)"
        and err = TransportError
        and b = "cep_body ''01310100''" and req = "\<lparr>CEPRequest.CEP = ''01310100''\<rparr>"]
    by (simp add: bind_01310100 valid_01310100 world_lookup)
next
  show "fst (handleWeather exact (world '''' (Inr not_json) (Inl TransportError))
        (cep_body ''01310100''))
     = (404, PError \<lparr>Message = ''can not find zipcode''\<rparr>)"
    using handleWeather_status_mapping [where ops = exact
        and e = "world '''' (Inr not_json) (Inl TransportError)"
        and resp = not_json and err = SyntaxError
        and b = "cep_body ''01310100''" and req = "\<lparr>CEPRequest.CEP = ''01310100''\<rparr>"]
    by (simp add: bind_01310100 valid_01310100 world_lookup not_json_def Decode_def)
next
  have "Decode (into_struct ViaCEPResponse_field) zero_ViaCEPResponse (Body erro_true)
      = Inr (zero_ViaCEPResponse\<lparr>Erro := True\<rparr>)"
    by code_simp
  then show "fst (handleWeather exact (world '''' (Inr erro_true) (Inl TransportError))
        (cep_body ''01310100''))
     = (404, PError \<lparr>Message = ''can not find zipcode''\<rparr>)"
    using handleWeather_status_mapping [where ops = exact
        and e = "world '''' (Inr erro_true) (Inl TransportError)"
        and resp = erro_true and info = "zero_ViaCEPResponse\<lparr>Erro := True\<rparr>"
        and b = "cep_body ''01310100''" and req = "\<lparr>CEPRequest.CEP = ''01310100''\<rparr>"]
    by (simp add: bind_01310100 valid_01310100 world_lookup)
next
  show "fst (handleWeather exact (world ''k3y'' (Inr sao_paulo) (Inl TransportError))
        (cep_body ''01310100''))
     = (500, PError \<lparr>Message = ''failed to fetch weather information''\<rparr>)"
    using handleWeather_status_mapping [where ops = exact
        and e = "world ''k3y'' (Inr sao_paulo) (Inl TransportError)"
        and info = sao_paulo_info and err = TransportError
        and b = "cep_body ''01310100''" and req = "\<lparr>CEPRequest.CEP = ''01310100''\<rparr>"]
    by (simp add: bind_01310100 valid_01310100 fetchCEPInfo_sao_paulo world_key world_weather)
next
  show "fst (handleWeather exact (world ''k3y'' (Inr sao_paulo) (Inr unauthorized))
        (cep_body ''01310100''))
     = (500, PError \<lparr>Message = ''failed to fetch weather information''\<rparr>)"
    using handleWeather_status_mapping [where ops = exact
        and e = "world ''k3y'' (Inr sao_paulo) (Inr unauthorized)"
        and info = sao_paulo_info and wresp = unauthorized
        and b = "cep_body ''01310100''" and req = "\<lparr>CEPRequest.CEP = ''01310100''\<rparr>"]
    by (simp add: bind_01310100 valid_01310100 fetchCEPInfo_sao_paulo world_key world_weather
        unauthorized_def)
next
  show "fst (handleWeather exact (world ''k3y'' (Inr sao_paulo) (Inr truncated))
        (cep_body ''01310100''))
     = (500, PError \<lparr>Message = ''failed to fetch weather information''\<rparr>)"
    using handleWeather_status_mapping [where ops = exact
        and e = "world ''k3y'' (Inr sao_paulo) (Inr truncated)"
        and info = sao_paulo_info and wresp = truncated and err = SyntaxError
        and b = "cep_body ''01310100''" and req = "\<lparr>CEPRequest.CEP = ''01310100''\<rparr>"]
    by (simp add: bind_01310100 valid_01310100 fetchCEPInfo_sao_paulo world_key world_weather
        truncated_def Decode_def)
next
  have "fst (handleWeather exact (world ''k3y'' (Inr sao_paulo) (Inr weather_25))
        (cep_body ''01310100''))
     = (200, PWeather \<lparr>City = Localidade sao_paulo_info, TempC = 25,
          TempF = celsiusToFahrenheit exact 25, TempK = celsiusToKelvin exact 25\<rparr>)"
    using handleWeather_status_mapping [where ops = exact
        and e = "world ''k3y'' (Inr sao_paulo) (Inr weather_25)"
        and info = sao_paulo_info and w = "\<lparr>Current = \<lparr>Current.TempC = 25\<rparr>\<rparr>"
        and b = "cep_body ''01310100''" and req = "\<lparr>CEPRequest.CEP = ''01310100''\<rparr>"]
    by (simp add: bind_01310100 valid_01310100 fetchCEPInfo_sao_paulo fetchWeatherInfo_25)
  then show "fst (handleWeather exact (world ''k3y'' (Inr sao_paulo) (Inr weather_25))
        (cep_body ''01310100''))
     = (200, PWeather \<lparr>City = ''Sao Paulo'', TempC = 25, TempF = 77, TempK = 298\<rparr>)"
    by (simp add: celsiusToFahrenheit_def celsiusToKelvin_def exact_def sao_paulo_info_def)
qed

text \<open>
  Claim C4. When the variable \<^verbatim>\<open>WEATHER_API_KEY\<close> is not set (or empty), or holds the
  placeholder \<^verbatim>\<open>demo_key\<close>, the weather stage sends no request at all and succeeds with the
  Celsius value 22.5; a request that reaches the weather stage is then answered with status
  200 and that Celsius value, and the only request the orchestrator sent is the postal
  lookup.
\<close>

theorem fetchWeatherInfo_no_credential:
  fixes ops :: "'f float64_ops"
  assumes "Getenv e ''WEATHER_API_KEY'' = '''' \<or> Getenv e ''WEATHER_API_KEY'' = ''demo_key''"
  shows "fetchWeatherInfo ops e city
       = (Inr \<lparr>Current = \<lparr>Current.TempC = f64_const ops 22.5\<rparr>\<rparr>, [])
     \<and> (ShouldBindJSON b = Inr req \<and> validateCEP (CEPRequest.CEP req)
          \<and> fst (fetchCEPInfo e (CEPRequest.CEP req)) = Inr info \<longrightarrow>
        handleWeather ops e b
          = ((200, PWeather \<lparr>City = Localidade info, TempC = f64_const ops 22.5,
                TempF = celsiusToFahrenheit ops (f64_const ops 22.5),
                TempK = celsiusToKelvin ops (f64_const ops 22.5)\<rparr>),
             [viacep_request (CEPRequest.CEP req)]))"
proof (intro conjI impI; (elim conjE)?)
  show "fetchWeatherInfo ops e city
       = (Inr \<lparr>Current = \<lparr>Current.TempC = f64_const ops 22.5\<rparr>\<rparr>, [])"
    by (rule fetchWeatherInfo_mock [OF assms])
next
  assume "ShouldBindJSON b = Inr req" "validateCEP (CEPRequest.CEP req)"
    "fst (fetchCEPInfo e (CEPRequest.CEP req)) = Inr info"
  from handleWeather_success [OF this fetchWeatherInfo_mock [OF assms]]
  show "handleWeather ops e b
          = ((200, PWeather \<lparr>City = Localidade info, TempC = f64_const ops 22.5,
                TempF = celsiusToFahrenheit ops (f64_const ops 22.5),
                TempK = celsiusToKelvin ops (f64_const ops 22.5)\<rparr>),
             [viacep_request (CEPRequest.CEP req)])"
    by simp
qed

theorem fetchWeatherInfo_no_credential_witness:
  "fetchWeatherInfo exact (world '''' (Inr sao_paulo) (Inr weather_25)) ''Sao Paulo''
     = (Inr \<lparr>Current = \<lparr>Current.TempC = 22.5\<rparr>\<rparr>, [])
   \<and> fetchWeatherInfo exact (world ''demo_key'' (Inr sao_paulo) (Inr weather_25)) ''Sao Paulo''
     = (Inr \<lparr>Current = \<lparr>Current.TempC = 22.5\<rparr>\<rparr>, [])
   \<and> handleWeather exact (world ''demo_key'' (Inr sao_paulo) (Inr weather_25))
        (cep_body ''01310100'')
     = ((200, PWeather \<lparr>City = ''Sao Paulo'', TempC = 22.5, TempF = 72.5, TempK = 295.5\<rparr>),
        [viacep_request ''01310100''])"
proof (intro conjI)
  show "fetchWeatherInfo exact (world '''' (Inr sao_paulo) (Inr weather_25)) ''Sao Paulo''
     = (Inr \<lparr>Current = \<lparr>Current.TempC = 22.5\<rparr>\<rparr>, [])"
    using fetchWeatherInfo_no_credential [where ops = exact
        and e = "world '''' (Inr sao_paulo) (Inr weather_25)" and city = "''Sao Paulo''"]
    by (simp add: world_key exact_def)
next
  show "fetchWeatherInfo exact (world ''demo_key'' (Inr sao_paulo) (Inr weather_25)) ''Sao Paulo''
     = (Inr \<lparr>Current = \<lparr>Current.TempC = 22.5\<rparr>\<rparr>, [])"
    using fetchWeatherInfo_no_credential [where ops = exact
        and e = "world ''demo_key'' (Inr sao_paulo) (Inr weather_25)" and city = "''Sao Paulo''"]
    by (simp add: world_key exact_def)
next
  have "handleWeather exact (world ''demo_key'' (Inr sao_paulo) (Inr weather_25))
        (cep_body ''01310100'')
     = ((200, PWeather \<lparr>City = Localidade sao_paulo_info, TempC = f64_const exact 22.5,
                TempF = celsiusToFahrenheit exact (f64_const exact 22.5),
                TempK = celsiusToKelvin exact (f64_const exact 22.5)\<rparr>),
        [viacep_request ''01310100''])"
    using fetchWeatherInfo_no_credential [where ops = exact
        and e = "world ''demo_key'' (Inr sao_paulo) (Inr weather_25)"
        and b = "cep_body ''01310100''" and req = "\<lparr>CEPRequest.CEP = ''01310100''\<rparr>"
        and info = sao_paulo_info]
    by (simp add: world_key bind_01310100 valid_01310100 fetchCEPInfo_sao_paulo)
  then show "handleWeather exact (world ''demo_key'' (Inr sao_paulo) (Inr weather_25))
        (cep_body ''01310100'')
     = ((200, PWeather \<lparr>City = ''Sao Paulo'', TempC = 22.5, TempF = 72.5, TempK = 295.5\<rparr>),
        [viacep_request ''01310100''])"
    by (simp add: celsiusToFahrenheit_def celsiusToKelvin_def exact_def sao_paulo_info_def)
qed

text \<open>
  Claim C8. Without a weather credential the orchestrator's reply is a function of the
  request and of the lookup's outcome alone: two runs on the same valid postal code, in
  two worlds that give the same outcome to the postal lookup and have no credential (or the
  placeholder), return the same reply (status, city and temperatures), whatever else
  differs between the worlds; and a 200 reply carries the Celsius value 22.5.
\<close>

theorem handleWeather_deterministic_without_credential:
  fixes ops :: "'f float64_ops"
  assumes "Getenv e1 ''WEATHER_API_KEY'' = '''' \<or> Getenv e1 ''WEATHER_API_KEY'' = ''demo_key''"
    and "Getenv e2 ''WEATHER_API_KEY'' = '''' \<or> Getenv e2 ''WEATHER_API_KEY'' = ''demo_key''"
    and "ShouldBindJSON b = Inr req" and "validateCEP (CEPRequest.CEP req)"
    and "Do e1 (viacep_request (CEPRequest.CEP req)) = Do e2 (viacep_request (CEPRequest.CEP req))"
  shows "handleWeather ops e1 b = handleWeather ops e2 b
     \<and> (\<forall>r. fst (handleWeather ops e1 b) = (200, PWeather r) \<longrightarrow>
          TempC r = f64_const ops 22.5)"
proof
  have same: "fetchCEPInfo e1 (CEPRequest.CEP req) = fetchCEPInfo e2 (CEPRequest.CEP req)"
    using assms(5) by (simp add: fetchCEPInfo_def)
  show "handleWeather ops e1 b = handleWeather ops e2 b"
    by (simp add: handleWeather_def assms(3,4) same
        fetchWeatherInfo_mock [OF assms(1)] fetchWeatherInfo_mock [OF assms(2)]
        split: prod.splits sum.splits)
  show "\<forall>r. fst (handleWeather ops e1 b) = (200, PWeather r) \<longrightarrow> TempC r = f64_const ops 22.5"
  proof (intro allI impI)
    fix r :: "'f WeatherResponse"
    assume "fst (handleWeather ops e1 b) = (200, PWeather r)"
    from handleWeather_200 [OF this] show "TempC r = f64_const ops 22.5"
      by (auto simp: fetchWeatherInfo_mock [OF assms(1)])
  qed
qed

theorem handleWeather_deterministic_without_credential_witness:
  "handleWeather exact (world '''' (Inr sao_paulo) (Inr weather_25)) (cep_body ''01310100'')
     = handleWeather exact (world ''demo_key'' (Inr sao_paulo) (Inl TransportError))
         (cep_body ''01310100'')
   \<and> fst (handleWeather exact (world '''' (Inr sao_paulo) (Inr weather_25))
        (cep_body ''01310100''))
     = (200, PWeather \<lparr>City = ''Sao Paulo'', TempC = 22.5, TempF = 72.5, TempK = 295.5\<rparr>)"
proof -
  have k1: "Getenv (world '''' (Inr sao_paulo) (Inr weather_25)) ''WEATHER_API_KEY'' = ''''
      \<or> Getenv (world '''' (Inr sao_paulo) (Inr weather_25)) ''WEATHER_API_KEY'' = ''demo_key''"
    by (simp add: world_key)
  have k2: "Getenv (world ''demo_key'' (Inr sao_paulo) (Inl TransportError)) ''WEATHER_API_KEY''
        = ''''
      \<or> Getenv (world ''demo_key'' (Inr sao_paulo) (Inl TransportError)) ''WEATHER_API_KEY''
        = ''demo_key''"
    by (simp add: world_key)
  have v: "validateCEP (CEPRequest.CEP \<lparr>CEPRequest.CEP = ''01310100''\<rparr>)"
    by (simp add: valid_01310100)
  have d: "Do (world '''' (Inr sao_paulo) (Inr weather_25))
        (viacep_request (CEPRequest.CEP \<lparr>CEPRequest.CEP = ''01310100''\<rparr>))
      = Do (world ''demo_key'' (Inr sao_paulo) (Inl TransportError))
        (viacep_request (CEPRequest.CEP \<lparr>CEPRequest.CEP = ''01310100''\<rparr>))"
    by (simp add: world_lookup)
  from handleWeather_deterministic_without_credential [where ops = exact,
      OF k1 k2 bind_01310100 v d]
  have "handleWeather exact (world '''' (Inr sao_paulo) (Inr weather_25)) (cep_body ''01310100'')
     = handleWeather exact (world ''demo_key'' (Inr sao_paulo) (Inl TransportError))
         (cep_body ''01310100'')"
    by (rule conjunct1)
  moreover have "fst (handleWeather exact (world '''' (Inr sao_paulo) (Inr weather_25))
        (cep_body ''01310100''))
     = (200, PWeather \<lparr>City = ''Sao Paulo'', TempC = 22.5, TempF = 72.5, TempK = 295.5\<rparr>)"
    by (simp add: handleWeather_sao_paulo)
  ultimately show ?thesis by (rule conjI)
qed

text \<open>
  Claim C10. The postal-lookup stage never looks at the status code of the lookup response:
  replacing the status of every response by any other leaves its result unchanged; a
  response whose body decodes and whose \<open>erro\<close> field is not true is a success whatever its
  status; the stage fails exactly on a transport error, a body that does not decode, or
  \<open>erro\<close> being true; and for a valid postal code the orchestrator answers 404 exactly when
  the stage fails.
\<close>

theorem fetchCEPInfo_ignores_status:
  fixes ops :: "'f float64_ops"
  shows
    "fetchCEPInfo (e\<lparr>Do := \<lambda>r. map_sum id (\<lambda>resp. resp\<lparr>StatusCode := st\<rparr>) (Do e r)\<rparr>) cep
       = fetchCEPInfo e cep
     \<and> (Do e (viacep_request cep) = Inr resp
          \<and> Decode (into_struct ViaCEPResponse_field) zero_ViaCEPResponse (Body resp) = Inr info
          \<and> \<not> Erro info \<longrightarrow>
        fst (fetchCEPInfo e cep) = Inr info)
     \<and> ((\<exists>err. fst (fetchCEPInfo e cep) = Inl err) \<longleftrightarrow>
          (\<exists>err. Do e (viacep_request cep) = Inl err)
          \<or> (\<exists>r. Do e (viacep_request cep) = Inr r
               \<and> ((\<exists>err. Decode (into_struct ViaCEPResponse_field) zero_ViaCEPResponse (Body r)
                       = Inl err)
                  \<or> (\<exists>i. Decode (into_struct ViaCEPResponse_field) zero_ViaCEPResponse (Body r)
                       = Inr i \<and> Erro i))))
     \<and> (ShouldBindJSON b = Inr req \<and> validateCEP (CEPRequest.CEP req) \<longrightarrow>
          (fst (fst (handleWeather ops e b)) = 404 \<longleftrightarrow>
           (\<exists>err. fst (fetchCEPInfo e (CEPRequest.CEP req)) = Inl err)))"
proof (intro conjI impI; (elim conjE)?)
  show "fetchCEPInfo (e\<lparr>Do := \<lambda>r. map_sum id (\<lambda>resp. resp\<lparr>StatusCode := st\<rparr>) (Do e r)\<rparr>) cep
       = fetchCEPInfo e cep"
    by (cases "Do e (viacep_request cep)") (simp_all add: fetchCEPInfo_def Let_def)
next
  assume "Do e (viacep_request cep) = Inr resp"
    "Decode (into_struct ViaCEPResponse_field) zero_ViaCEPResponse (Body resp) = Inr info"
    "\<not> Erro info"
  then show "fst (fetchCEPInfo e cep) = Inr info"
    by (rule fetchCEPInfo_found)
next
  show "(\<exists>err. fst (fetchCEPInfo e cep) = Inl err) \<longleftrightarrow>
          (\<exists>err. Do e (viacep_request cep) = Inl err)
          \<or> (\<exists>r. Do e (viacep_request cep) = Inr r
               \<and> ((\<exists>err. Decode (into_struct ViaCEPResponse_field) zero_ViaCEPResponse (Body r)
                       = Inl err)
                  \<or> (\<exists>i. Decode (into_struct ViaCEPResponse_field) zero_ViaCEPResponse (Body r)
                       = Inr i \<and> Erro i)))"
    by (auto simp: fetchCEPInfo_cases split: sum.splits if_splits)
next
  assume bind: "ShouldBindJSON b = Inr req" and valid: "validateCEP (CEPRequest.CEP req)"
  show "fst (fst (handleWeather ops e b)) = 404 \<longleftrightarrow>
           (\<exists>err. fst (fetchCEPInfo e (CEPRequest.CEP req)) = Inl err)"
  proof (cases "fst (fetchCEPInfo e (CEPRequest.CEP req))")
    case (Inl err)
    with handleWeather_lookup_error [OF bind valid Inl, of ops] show ?thesis by simp
  next
    case (Inr info)
    show ?thesis
    proof (cases "fst (fetchWeatherInfo ops e (Localidade info))")
      case (Inl err)
      with handleWeather_weather_error [OF bind valid Inr Inl] Inr show ?thesis by simp
    next
      case w: (Inr w)
      with handleWeather_success_fst [OF bind valid Inr w] Inr show ?thesis by simp
    qed
  qed
qed

theorem fetchCEPInfo_ignores_status_witness:
  "fst (fetchCEPInfo (world '''' (Inr (sao_paulo\<lparr>StatusCode := 500\<rparr>)) (Inl TransportError))
      ''01310100'') = Inr sao_paulo_info
   \<and> fst (fst (handleWeather exact
        (world '''' (Inr (sao_paulo\<lparr>StatusCode := 500\<rparr>)) (Inl TransportError))
        (cep_body ''01310100''))) \<noteq> 404"
proof -
  let ?e = "world '''' (Inr (sao_paulo\<lparr>StatusCode := 500\<rparr>)) (Inl TransportError)"
  have d: "Decode (into_struct ViaCEPResponse_field) zero_ViaCEPResponse
      (Body (sao_paulo\<lparr>StatusCode := 500\<rparr>)) = Inr sao_paulo_info"
    using decode_sao_paulo by simp
  note t = fetchCEPInfo_ignores_status [where ops = exact and e = ?e and cep = "''01310100''"
      and resp = "sao_paulo\<lparr>StatusCode := 500\<rparr>" and info = sao_paulo_info
      and b = "cep_body ''01310100''" and req = "\<lparr>CEPRequest.CEP = ''01310100''\<rparr>"]
  from t d have 1: "fst (fetchCEPInfo ?e ''01310100'') = Inr sao_paulo_info"
    by (simp add: world_lookup sao_paulo_info_def)
  from t 1 have 2: "fst (fst (handleWeather exact ?e (cep_body ''01310100''))) \<noteq> 404"
    by (simp add: bind_01310100 valid_01310100)
  from 1 2 show ?thesis by (rule conjI)
qed

lemma names_lower:
  "map lower ''cep'' = ''cep''" "map lower ''logradouro'' = ''logradouro''"
  "map lower ''bairro'' = ''bairro''" "map lower ''localidade'' = ''localidade''"
  by code_simp+

lemma localidade_only:
  assumes "equalFold k ''localidade''"
  shows "\<not> equalFold k ''cep''" "\<not> equalFold k ''logradouro''" "\<not> equalFold k ''bairro''"
proof -
  from assms have k: "map lower k = ''localidade''"
    by (simp only: equalFold_def names_lower)
  show "\<not> equalFold k ''cep''"
    unfolding equalFold_def names_lower k by simp
  show "\<not> equalFold k ''logradouro''"
    unfolding equalFold_def names_lower k by simp
  show "\<not> equalFold k ''bairro''"
    unfolding equalFold_def names_lower k by simp
qed

lemma ViaCEPResponse_field_Localidade:
  assumes "ViaCEPResponse_field k v r = Inr r'"
  shows "Localidade r' =
     (if equalFold k ''localidade'' then (case v of JString s \<Rightarrow> s | _ \<Rightarrow> Localidade r)
      else Localidade r)"
proof (cases "equalFold k ''localidade''")
  case True
  with assms localidade_only [OF True] show ?thesis
    by (cases v) (auto simp: ViaCEPResponse_field_def into_string_def)
next
  case False
  with assms show ?thesis
    by (cases "into_string v (ViaCEPResponse.CEP r)"; cases "into_string v (Logradouro r)";
        cases "into_string v (Bairro r)"; cases "into_string v (UF r)";
        cases "into_bool v (Erro r)")
      (auto simp: ViaCEPResponse_field_def split: if_splits)
qed

lemma object_fields_Localidade:
  "object_fields ViaCEPResponse_field ms r = Inr r' \<Longrightarrow>
   Localidade r' = last_string ''localidade'' ms (Localidade r)"
proof (induction ms arbitrary: r)
  case Nil
  then show ?case by simp
next
  case (Cons m ms)
  obtain k v where m: "m = (k, v)" by (cases m)
  from Cons.prems m obtain r1 where
    1: "ViaCEPResponse_field k v r = Inr r1" and 2: "object_fields ViaCEPResponse_field ms r1 = Inr r'"
    by (auto split: sum.splits)
  from Cons.IH [OF 2] ViaCEPResponse_field_Localidade [OF 1] m show ?case
    by simp
qed

text \<open>
  Claim C7, as the code has it. When the postal lookup is classified as a success, the
  locality name the orchestrator goes on with is the one the body of the lookup response
  gives in its \<open>localidade\<close> member (the last one that holds a string), and the empty name
  when the body gives none: nothing checks that the name is non-empty.
\<close>

theorem fetchCEPInfo_locality:
  assumes "Do e (viacep_request cep) = Inr resp" and "fst (fetchCEPInfo e cep) = Inr info"
  shows "Localidade info = string_member ''localidade'' (Body resp)"
proof -
  from assms have d:
    "Decode (into_struct ViaCEPResponse_field) zero_ViaCEPResponse (Body resp) = Inr info"
    by (simp add: fetchCEPInfo_cases split: sum.splits if_splits)
  then obtain v where b: "Body resp = Some v" and s: "into_struct ViaCEPResponse_field v zero_ViaCEPResponse = Inr info"
    by (auto simp: Decode_def split: option.splits)
  show ?thesis
  proof (cases v)
    case (JObject ms)
    with s have "object_fields ViaCEPResponse_field ms zero_ViaCEPResponse = Inr info"
      by (simp add: into_struct_def)
    from object_fields_Localidade [OF this] b JObject show ?thesis
      by (simp add: string_member_def zero_ViaCEPResponse_def)
  next
    case JNull
    with s b show ?thesis
      by (auto simp: into_struct_def string_member_def zero_ViaCEPResponse_def)
  qed (use s in \<open>simp_all add: into_struct_def\<close>)
qed

theorem fetchCEPInfo_locality_witness:
  "Localidade sao_paulo_info = ''Sao Paulo''
   \<and> string_member ''localidade'' (Body sao_paulo) = ''Sao Paulo''
   \<and> string_member ''localidade'' (Body empty_object) = ''''"
proof -
  have 1: "Do (world '''' (Inr sao_paulo) (Inl TransportError)) (viacep_request ''01310100'')
      = Inr sao_paulo"
    by (simp add: world_lookup)
  have 2: "fst (fetchCEPInfo (world '''' (Inr sao_paulo) (Inl TransportError)) ''01310100'')
      = Inr sao_paulo_info"
    by (simp add: fetchCEPInfo_sao_paulo)
  have 3: "Localidade sao_paulo_info = ''Sao Paulo''"
    by (simp add: sao_paulo_info_def)
  from fetchCEPInfo_locality [OF 1 2] 3 show ?thesis
    by (simp add: string_member_def empty_object_def)
qed

text \<open>
  The claim as the specification states it (a successful lookup always carries a non-empty
  locality name) fails: a lookup response with status 200 and the body \<^verbatim>\<open>{}\<close> is classified
  as a success, its locality name is empty, and the orchestrator answers 200 with an empty
  city.
\<close>

theorem fetchCEPInfo_empty_locality_counterexample:
  "fst (fetchCEPInfo (world '''' (Inr empty_object) (Inl TransportError)) ''01310100'')
     = Inr zero_ViaCEPResponse
   \<and> Localidade zero_ViaCEPResponse = ''''
   \<and> fst (handleWeather exact (world '''' (Inr empty_object) (Inl TransportError))
        (cep_body ''01310100''))
     = (200, PWeather \<lparr>City = '''', TempC = 22.5, TempF = 72.5, TempK = 295.5\<rparr>)"
proof -
  let ?e = "world '''' (Inr empty_object) (Inl TransportError)"
  have d: "Decode (into_struct ViaCEPResponse_field) zero_ViaCEPResponse (Body empty_object)
      = Inr zero_ViaCEPResponse"
    by (simp add: Decode_def into_struct_def empty_object_def)
  have 1: "fst (fetchCEPInfo ?e cep) = Inr zero_ViaCEPResponse" for cep
    by (simp add: fetchCEPInfo_cases world_lookup d) (simp add: zero_ViaCEPResponse_def)
  have 2: "Localidade zero_ViaCEPResponse = ''''"
    by (simp add: zero_ViaCEPResponse_def)
  have w: "fetchWeatherInfo exact ?e (Localidade zero_ViaCEPResponse)
      = (Inr \<lparr>Current = \<lparr>Current.TempC = f64_const exact 22.5\<rparr>\<rparr>, [])"
    by (rule fetchWeatherInfo_mock) (simp add: world_key)
  from handleWeather_success [where e = ?e and info = zero_ViaCEPResponse,
      OF bind_01310100 _ _ w]
  have 3: "fst (handleWeather exact ?e (cep_body ''01310100''))
     = (200, PWeather \<lparr>City = '''', TempC = 22.5, TempF = 72.5, TempK = 295.5\<rparr>)"
    by (simp add: valid_01310100 1 2 celsiusToFahrenheit_def celsiusToKelvin_def exact_def)
  from 1 2 3 show ?thesis by simp
qed

section \<open>The edge validator: proofs\<close>

lemma world_forward: "forwardToServiceB (world key lookup other) cep
    = (other, [\<lparr>Method = ''POST'', URL = ''http://service-b:8081/weather'',
         Header = [(''Content-Type'', ''application/json'')],
         ReqBody = Some (JObject [(''cep'', JString cep)])\<rparr>])"
  by (simp add: forwardToServiceB_def world_def Let_def)

lemma handleCEP_bind_error:
  "ShouldBindJSON b = Inl err \<Longrightarrow>
   handleCEP ops e b = ((422, PError \<lparr>Message = ''invalid zipcode''\<rparr>), [])"
  by (simp add: handleCEP_def)

lemma handleCEP_invalid:
  "ShouldBindJSON b = Inr req \<Longrightarrow> \<not> validateCEP (CEPRequest.CEP req) \<Longrightarrow>
   handleCEP ops e b = ((422, PError \<lparr>Message = ''invalid zipcode''\<rparr>), [])"
  by (simp add: handleCEP_def)

lemma handleCEP_transport_error:
  "ShouldBindJSON b = Inr req \<Longrightarrow> validateCEP (CEPRequest.CEP req) \<Longrightarrow>
   fst (forwardToServiceB e (CEPRequest.CEP req)) = Inl err \<Longrightarrow>
   fst (handleCEP ops e b) = (500, PError \<lparr>Message = ''internal server error''\<rparr>)"
  by (cases "forwardToServiceB e (CEPRequest.CEP req)") (simp add: handleCEP_def)

lemma handleCEP_decode_error:
  "ShouldBindJSON b = Inr req \<Longrightarrow> validateCEP (CEPRequest.CEP req) \<Longrightarrow>
   forwardToServiceB e (CEPRequest.CEP req) = (Inr resp, sent) \<Longrightarrow>
   DecodeInterface ops (Body resp) = Inl err \<Longrightarrow>
   handleCEP ops e b = ((500, PError \<lparr>Message = ''internal server error''\<rparr>), sent)"
  by (simp add: handleCEP_def)

lemma handleCEP_relayed:
  "ShouldBindJSON b = Inr req \<Longrightarrow> validateCEP (CEPRequest.CEP req) \<Longrightarrow>
   forwardToServiceB e (CEPRequest.CEP req) = (Inr resp, sent) \<Longrightarrow>
   DecodeInterface ops (Body resp) = Inr v \<Longrightarrow>
   handleCEP ops e b = ((StatusCode resp, PValue v), sent)"
  by (simp add: handleCEP_def)

lemma object_fields_no_cep:
  "\<forall>(k, v) \<in> set ms. \<not> equalFold k ''cep'' \<Longrightarrow> object_fields CEPRequest_field ms r = Inr r"
  by (induction ms arbitrary: r) (auto simp: CEPRequest_field_def)

lemma CEPRequest_field_error:
  "CEPRequest_field k v r = Inl err \<Longrightarrow> err = UnmarshalTypeError"
  by (cases v) (auto simp: CEPRequest_field_def into_string_def split: if_splits)

lemma object_fields_wrong_type:
  assumes "(k, v) \<in> set ms" and "equalFold k ''cep''" and "\<forall>s. v \<noteq> JString s" and "v \<noteq> JNull"
  shows "object_fields CEPRequest_field ms r = Inl UnmarshalTypeError"
  using assms(1)
proof (induction ms arbitrary: r)
  case Nil
  then show ?case by simp
next
  case (Cons m ms)
  obtain k' v' where m: "m = (k', v')" by (cases m)
  show ?case
  proof (cases "CEPRequest_field k' v' r")
    case (Inl err)
    with CEPRequest_field_error [OF Inl] m show ?thesis by simp
  next
    case (Inr r1)
    have "(k', v') \<noteq> (k, v)"
    proof
      assume "(k', v') = (k, v)"
      with Inr assms(2,3,4) show False
        by (cases v) (auto simp: CEPRequest_field_def into_string_def)
    qed
    with Cons.prems m have "(k, v) \<in> set ms" by auto
    from Cons.IH [OF this] Inr m show ?thesis by simp
  qed
qed

text \<open>
  Claim C6. The edge validator maps its own failure classes to fixed outcomes: a body that
  does not bind to a request (among them: a body that is not JSON, an object without a
  \<open>cep\<close> member, a \<open>cep\<close> member or a body of the wrong type) gets 422 "invalid zipcode", and
  no request is forwarded; a bound postal code that fails validation gets the same; an
  error of the forwarding call gets 500 "internal server error".
\<close>

theorem handleCEP_failure_classes:
  fixes ops :: "'f float64_ops"
  shows
    "(ShouldBindJSON b = Inl err \<longrightarrow>
        handleCEP ops e b = ((422, PError \<lparr>Message = ''invalid zipcode''\<rparr>), []))
     \<and> (ShouldBindJSON b = Inr req \<and> \<not> validateCEP (CEPRequest.CEP req) \<longrightarrow>
        handleCEP ops e b = ((422, PError \<lparr>Message = ''invalid zipcode''\<rparr>), []))
     \<and> (ShouldBindJSON b = Inr req \<and> validateCEP (CEPRequest.CEP req)
          \<and> fst (forwardToServiceB e (CEPRequest.CEP req)) = Inl err \<longrightarrow>
        fst (handleCEP ops e b) = (500, PError \<lparr>Message = ''internal server error''\<rparr>))
     \<and> ShouldBindJSON None = Inl SyntaxError
     \<and> ((\<forall>(k, v) \<in> set ms. \<not> equalFold k ''cep'') \<longrightarrow>
        ShouldBindJSON (Some (JObject ms)) = Inl ValidationError)
     \<and> ((k, v) \<in> set ms \<and> equalFold k ''cep'' \<and> (\<forall>s. v \<noteq> JString s) \<and> v \<noteq> JNull \<longrightarrow>
        ShouldBindJSON (Some (JObject ms)) = Inl UnmarshalTypeError)
     \<and> ((\<forall>ms. d \<noteq> JObject ms) \<and> d \<noteq> JNull \<longrightarrow>
        ShouldBindJSON (Some d) = Inl UnmarshalTypeError)"
proof (intro conjI impI; (elim conjE)?)
  assume "ShouldBindJSON b = Inl err"
  then show "handleCEP ops e b = ((422, PError \<lparr>Message = ''invalid zipcode''\<rparr>), [])"
    by (rule handleCEP_bind_error)
next
  assume "ShouldBindJSON b = Inr req" "\<not> validateCEP (CEPRequest.CEP req)"
  then show "handleCEP ops e b = ((422, PError \<lparr>Message = ''invalid zipcode''\<rparr>), [])"
    by (rule handleCEP_invalid)
next
  assume "ShouldBindJSON b = Inr req" "validateCEP (CEPRequest.CEP req)"
    "fst (forwardToServiceB e (CEPRequest.CEP req)) = Inl err"
  then show "fst (handleCEP ops e b) = (500, PError \<lparr>Message = ''internal server error''\<rparr>)"
    by (rule handleCEP_transport_error)
next
  show "ShouldBindJSON None = Inl SyntaxError"
    by (simp add: ShouldBindJSON_def Decode_def)
next
  assume "\<forall>(k, v) \<in> set ms. \<not> equalFold k ''cep''"
  from object_fields_no_cep [OF this]
  show "ShouldBindJSON (Some (JObject ms)) = Inl ValidationError"
    by (simp add: ShouldBindJSON_def Decode_def into_struct_def zero_CEPRequest_def)
next
  assume "(k, v) \<in> set ms" "equalFold k ''cep''" "\<forall>s. v \<noteq> JString s" "v \<noteq> JNull"
  from object_fields_wrong_type [OF this]
  show "ShouldBindJSON (Some (JObject ms)) = Inl UnmarshalTypeError"
    by (simp add: ShouldBindJSON_def Decode_def into_struct_def)
next
  assume "\<forall>ms. d \<noteq> JObject ms" "d \<noteq> JNull"
  then show "ShouldBindJSON (Some d) = Inl UnmarshalTypeError"
    by (cases d) (simp_all add: ShouldBindJSON_def Decode_def into_struct_def)
qed

theorem handleCEP_failure_classes_witness:
  "handleCEP exact (world '''' (Inl TransportError) (Inr orchestrator_ok)) None
     = ((422, PError \<lparr>Message = ''invalid zipcode''\<rparr>), [])
   \<and> handleCEP exact (world '''' (Inl TransportError) (Inr orchestrator_ok)) (Some (JObject []))
     = ((422, PError \<lparr>Message = ''invalid zipcode''\<rparr>), [])
   \<and> handleCEP exact (world '''' (Inl TransportError) (Inr orchestrator_ok))
        (Some (JObject [(''cep'', JNumber 1310100)]))
     = ((422, PError \<lparr>Message = ''invalid zipcode''\<rparr>), [])
   \<and> handleCEP exact (world '''' (Inl TransportError) (Inr orchestrator_ok))
        (Some (JString ''01310100''))
     = ((422, PError \<lparr>Message = ''invalid zipcode''\<rparr>), [])
   \<and> handleCEP exact (world '''' (Inl TransportError) (Inr orchestrator_ok)) (cep_body ''123'')
     = ((422, PError \<lparr>Message = ''invalid zipcode''\<rparr>), [])
   \<and> fst (handleCEP exact (world '''' (Inr sao_paulo) (Inl TransportError))
        (cep_body ''01310100''))
     = (500, PError \<lparr>Message = ''internal server error''\<rparr>)"
proof (intro conjI)
  let ?e = "world '''' (Inl TransportError) (Inr orchestrator_ok)"
  note t = handleCEP_failure_classes [where ops = exact and e = ?e]
  show "handleCEP exact ?e None = ((422, PError \<lparr>Message = ''invalid zipcode''\<rparr>), [])"
    using t [where b = None and err = SyntaxError] by simp
  show "handleCEP exact ?e (Some (JObject []))
     = ((422, PError \<lparr>Message = ''invalid zipcode''\<rparr>), [])"
    using t [where b = "Some (JObject [])" and err = ValidationError and ms = "[]"] by simp
  have c: "equalFold ''cep'' ''cep''"
    by (simp add: equalFold_def)
  show "handleCEP exact ?e (Some (JObject [(''cep'', JNumber 1310100)]))
     = ((422, PError \<lparr>Message = ''invalid zipcode''\<rparr>), [])"
    using t [where b = "Some (JObject [(''cep'', JNumber 1310100)])" and err = UnmarshalTypeError
        and ms = "[(''cep'', JNumber 1310100)]" and k = "''cep''" and v = "JNumber 1310100"] c
    by simp
  show "handleCEP exact ?e (Some (JString ''01310100''))
     = ((422, PError \<lparr>Message = ''invalid zipcode''\<rparr>), [])"
    using t [where b = "Some (JString ''01310100'')" and err = UnmarshalTypeError
        and d = "JString ''01310100''"]
    by simp
  show "handleCEP exact ?e (cep_body ''123'')
     = ((422, PError \<lparr>Message = ''invalid zipcode''\<rparr>), [])"
    using t [where b = "cep_body ''123''" and req = "\<lparr>CEPRequest.CEP = ''123''\<rparr>"]
    by (simp add: bind_123 invalid_123)
  show "fst (handleCEP exact (world '''' (Inr sao_paulo) (Inl TransportError))
        (cep_body ''01310100''))
     = (500, PError \<lparr>Message = ''internal server error''\<rparr>)"
    using handleCEP_failure_classes [where ops = exact
        and e = "world '''' (Inr sao_paulo) (Inl TransportError)"
        and b = "cep_body ''01310100''" and req = "\<lparr>CEPRequest.CEP = ''01310100''\<rparr>"
        and err = TransportError]
    by (simp add: bind_01310100 valid_01310100 world_forward)
qed




text \<open>
  Claim C5, as the code has it. For a request whose postal code passes validation, whose
  forwarding call returns a response, and whose response body decodes as a JSON value, the
  edge validator answers with exactly the status code of the orchestrator and with the
  decoded value of the orchestrator's body (which gin encodes again), without looking into
  it; the requests sent are the forwarding request alone.
\<close>

theorem handleCEP_relays:
  fixes ops :: "'f float64_ops"
  assumes "ShouldBindJSON b = Inr req" and "validateCEP (CEPRequest.CEP req)"
    and "forwardToServiceB e (CEPRequest.CEP req) = (Inr resp, sent)"
    and "DecodeInterface ops (Body resp) = Inr v"
  shows "handleCEP ops e b = ((StatusCode resp, PValue v), sent)"
  using assms by (rule handleCEP_relayed)

theorem handleCEP_relays_witness:
  "fst (handleCEP exact (world '''' (Inl TransportError) (Inr orchestrator_ok))
      (cep_body ''01310100''))
     = (200, PValue (VMap [(''city'', VString ''Sao Paulo''), (''temp_C'', VFloat64 22.5),
          (''temp_F'', VFloat64 72.5), (''temp_K'', VFloat64 295.5)]))
   \<and> fst (handleCEP exact (world '''' (Inl TransportError) (Inr orchestrator_not_found))
      (cep_body ''01310100''))
     = (404, PValue (VMap [(''message'', VString ''can not find zipcode'')]))"
proof -
  have v: "validateCEP (CEPRequest.CEP \<lparr>CEPRequest.CEP = ''01310100''\<rparr>)"
    by (simp add: valid_01310100)
  have f: "forwardToServiceB (world '''' (Inl TransportError) (Inr resp))
        (CEPRequest.CEP \<lparr>CEPRequest.CEP = ''01310100''\<rparr>)
      = (Inr resp, [\<lparr>Method = ''POST'', URL = ''http://service-b:8081/weather'',
         Header = [(''Content-Type'', ''application/json'')],
         ReqBody = Some (JObject [(''cep'', JString ''01310100'')])\<rparr>])" for resp
    by (simp add: world_forward)
  have d1: "DecodeInterface exact (Body orchestrator_ok)
      = Inr (VMap [(''city'', VString ''Sao Paulo''), (''temp_C'', VFloat64 22.5),
          (''temp_F'', VFloat64 72.5), (''temp_K'', VFloat64 295.5)])"
    by code_simp
  have d2: "DecodeInterface exact (Body orchestrator_not_found)
      = Inr (VMap [(''message'', VString ''can not find zipcode'')])"
    by code_simp
  from handleCEP_relays [where ops = exact, OF bind_01310100 v f d1]
    handleCEP_relays [where ops = exact, OF bind_01310100 v f d2]
  show ?thesis
    by (simp add: orchestrator_ok_def orchestrator_not_found_def)
qed

text \<open>
  The claim as the specification states it (status and body of the orchestrator are relayed
  for every request whose forwarding call succeeds at the transport level) fails: the
  orchestrator's response below arrives with status 200 and a body that is not JSON, and
  the caller gets 500 with the edge validator's own error message.
\<close>

theorem handleCEP_relays_counterexample:
  "ShouldBindJSON (cep_body ''01310100'') = Inr \<lparr>CEPRequest.CEP = ''01310100''\<rparr>
   \<and> validateCEP ''01310100''
   \<and> fst (forwardToServiceB (world '''' (Inl TransportError) (Inr truncated)) ''01310100'')
     = Inr truncated
   \<and> StatusCode truncated = 200
   \<and> fst (handleCEP exact (world '''' (Inl TransportError) (Inr truncated))
        (cep_body ''01310100''))
     = (500, PError \<lparr>Message = ''internal server error''\<rparr>)"
proof -
  have "DecodeInterface exact (Body truncated) = Inl SyntaxError"
    by (simp add: DecodeInterface_def truncated_def)
  from handleCEP_decode_error [where e = "world '''' (Inl TransportError) (Inr truncated)",
      OF bind_01310100 _ _ this]
  have "fst (handleCEP exact (world '''' (Inl TransportError) (Inr truncated))
        (cep_body ''01310100''))
     = (500, PError \<lparr>Message = ''internal server error''\<rparr>)"
    by (simp add: valid_01310100 world_forward)
  then show ?thesis
    by (simp add: bind_01310100 valid_01310100 world_forward truncated_def)
qed

end
